theory Spec2Isabelle
  imports Complex_Main "HOL-Library.Monad_Syntax"
begin

section \<open>The read-alignment core of strobealign (\<^verbatim>\<open>src/aln.cpp\<close>)\<close>

text \<open>
  A shallow embedding of the functions of \<^verbatim>\<open>aln.cpp\<close> that the specification makes
  claims about. Conventions of the model:
  \<^item> C++ \<^verbatim>\<open>int\<close> values are HOL integers; no theorem below depends on 32-bit overflow.
    Where the source converts a possibly negative \<^verbatim>\<open>int\<close> to \<^verbatim>\<open>size_t\<close>, the
    model writes out that the converted value lies beyond every string length, and where
    it computes in \<^verbatim>\<open>size_t\<close> and converts back (lines 485 to 490) the arithmetic
    modulo \<open>2\<^sup>6\<^sup>4\<close> is written out.
  \<^item> \<^verbatim>\<open>float\<close> and \<^verbatim>\<open>double\<close> values are real numbers: every floating-point
    operation is read as the exact operation, without rounding, infinities or NaN.
    Conversion of a floating-point value to \<^verbatim>\<open>int\<close> truncates towards zero.
  \<^item> A call that throws (\<^verbatim>\<open>std::string::substr\<close> with a start beyond the end) or
    indexes a vector out of range has the value \<open>None\<close>.
\<close>

subsection \<open>C++ arithmetic\<close>

definition trunc_int :: "real \<Rightarrow> int" where
  "trunc_int x = (if 0 \<le> x then \<lfloor>x\<rfloor> else \<lceil>x\<rceil>)"

definition cdiv :: "int \<Rightarrow> int \<Rightarrow> int" where
  "cdiv a b = sgn a * sgn b * (\<bar>a\<bar> div \<bar>b\<bar>)"

definition min_size_t :: "int \<Rightarrow> int \<Rightarrow> int" where
  "min_size_t x n = (if x < 0 then n else min x n)"

definition INT_MAX :: int where
  "INT_MAX = 2147483647"

definition INT_MIN :: int where
  "INT_MIN = - 2147483648"

text \<open>
  Arithmetic in \<^verbatim>\<open>size_t\<close> (64 bits) is modulo \<open>2\<^sup>6\<^sup>4\<close>: \<open>size_t_of\<close> is the value of an
  integer expression computed in \<^verbatim>\<open>size_t\<close>. Assigning a \<^verbatim>\<open>size_t\<close> to an \<^verbatim>\<open>int\<close>
  keeps the low 32 bits, read as a signed number (\<open>int_of_size_t\<close>). Assigning a
  \<^verbatim>\<open>float\<close> to an \<^verbatim>\<open>int\<close> truncates towards zero when the truncated value is an
  \<^verbatim>\<open>int\<close>; otherwise the conversion is undefined in C++, and \<open>float_to_int\<close> has the
  value that the conversion instruction of x86-64 returns then, \<^verbatim>\<open>INT_MIN\<close>.
\<close>

definition size_t_of :: "int \<Rightarrow> int" where
  "size_t_of x = x mod 18446744073709551616"

definition int_of_size_t :: "int \<Rightarrow> int" where
  "int_of_size_t x = (x + 2147483648) mod 4294967296 - 2147483648"

definition float_to_int :: "real \<Rightarrow> int" where
  "float_to_int x =
     (if - 2147483649 < x \<and> x < 2147483648 then trunc_int x else INT_MIN)"

subsection \<open>Seeds (NAMs)\<close>

text \<open>
  \<^verbatim>\<open>struct Nam\<close> is declared in \<^verbatim>\<open>nam.hpp\<close>; the record has the fields that
  \<^verbatim>\<open>aln.cpp\<close> reads and writes. \<^verbatim>\<open>score\<close> is a \<^verbatim>\<open>float\<close>, the others are
  \<^verbatim>\<open>int\<close> and \<^verbatim>\<open>bool\<close>.
\<close>

record Nam =
  nam_id :: int
  ref_id :: int
  ref_start :: int
  ref_end :: int
  query_start :: int
  query_end :: int
  n_hits :: int
  score :: real
  is_rc :: bool

definition ref_span :: "Nam \<Rightarrow> int" where
  "ref_span nam = ref_end nam - ref_start nam"

definition query_span :: "Nam \<Rightarrow> int" where
  "query_span nam = query_end nam - query_start nam"

subsection \<open>Strings, vectors, reads and references\<close>

text \<open>
  \<^verbatim>\<open>std::string::substr(pos, count)\<close> takes \<^verbatim>\<open>size_t\<close> arguments. A negative
  \<^verbatim>\<open>int\<close> converts to a value beyond every string length: as \<open>pos\<close> it makes the
  call throw \<^verbatim>\<open>std::out_of_range\<close>, as \<open>count\<close> it selects the rest of the string.
\<close>

definition substr :: "string \<Rightarrow> int \<Rightarrow> int \<Rightarrow> string option" where
  "substr s pos n =
     (if pos < 0 \<or> int (length s) < pos then None
      else Some (take (if n < 0 then length s else nat n) (drop (nat pos) s)))"

definition vec_at :: "'a list \<Rightarrow> int \<Rightarrow> 'a option" where
  "vec_at xs i = (if 0 \<le> i \<and> i < int (length xs) then Some (xs ! nat i) else None)"

text \<open>
  \<^verbatim>\<open>class Read\<close> (\<^verbatim>\<open>aln.hpp\<close>) holds the sequence and its reverse complement;
  \<^verbatim>\<open>Read::size()\<close> is the length of \<^verbatim>\<open>seq\<close>. \<^verbatim>\<open>References\<close> (\<^verbatim>\<open>refs.hpp\<close>)
  holds the contig sequences and their lengths.
\<close>

record Read =
  seq :: string
  rc :: string

definition read_size :: "Read \<Rightarrow> int" where
  "read_size r = int (length (seq r))"

record References =
  sequences :: "string list"
  lengths :: "int list"

subsection \<open>Orientation verifier (lines 37 to 70)\<close>

text \<open>
  The source updates the seed in place and returns a \<^verbatim>\<open>bool\<close>; the model returns the
  \<^verbatim>\<open>bool\<close> together with the seed after the call. The local \<^verbatim>\<open>seq\<close> is written
  \<open>sq\<close>.
\<close>

definition reverse_nam_if_needed :: "Nam \<Rightarrow> Read \<Rightarrow> References \<Rightarrow> int \<Rightarrow> (bool \<times> Nam) option" where
  "reverse_nam_if_needed nam read references k = do {
     let read_len = read_size read;
     rseq \<leftarrow> vec_at (sequences references) (ref_id nam);
     ref_start_kmer \<leftarrow> substr rseq (ref_start nam) k;
     ref_end_kmer \<leftarrow> substr rseq (ref_end nam - k) k;
     let sq = (if is_rc nam then rc read else seq read);
     let seq_rc = (if is_rc nam then seq read else rc read);
     read_start_kmer \<leftarrow> substr sq (query_start nam) k;
     read_end_kmer \<leftarrow> substr sq (query_end nam - k) k;
     if ref_start_kmer = read_start_kmer \<and> ref_end_kmer = read_end_kmer then Some (True, nam)
     else do {
       let q_start_tmp = read_len - query_end nam;
       let q_end_tmp = read_len - query_start nam;
       flip_start_kmer \<leftarrow> substr seq_rc q_start_tmp k;
       flip_end_kmer \<leftarrow> substr seq_rc (q_end_tmp - k) k;
       if ref_start_kmer = flip_start_kmer \<and> ref_end_kmer = flip_end_kmer
       then Some (True, nam\<lparr>is_rc := \<not> is_rc nam, query_start := q_start_tmp, query_end := q_end_tmp\<rparr>)
       else Some (False, nam)
     }
   }"

text \<open>
  The seed's spans lie inside the contig and the read and are at least \<open>k\<close> long; the
  read's two strands have the same length.
\<close>

definition nam_in_bounds :: "Nam \<Rightarrow> Read \<Rightarrow> References \<Rightarrow> int \<Rightarrow> bool" where
  "nam_in_bounds nam read references k =
     (case vec_at (sequences references) (ref_id nam) of
        None \<Rightarrow> False
      | Some rseq \<Rightarrow>
          0 \<le> k \<and> length (rc read) = length (seq read) \<and>
          0 \<le> ref_start nam \<and> ref_start nam + k \<le> ref_end nam \<and> ref_end nam \<le> int (length rseq) \<and>
          0 \<le> query_start nam \<and> query_start nam + k \<le> query_end nam \<and>
          query_end nam \<le> int (length (seq read)))"

text \<open>
  A read \<open>ACGTTTG\<close> that lies on the forward strand of the contig \<open>GGACGTTTGCC\<close> at
  offset 2, with a seed that claims the reverse strand.
\<close>

definition flip_read :: Read where
  "flip_read = \<lparr>seq = ''ACGTTTG'', rc = ''CAAACGT''\<rparr>"

definition flip_refs :: References where
  "flip_refs = \<lparr>sequences = [''GGACGTTTGCC''], lengths = [11]\<rparr>"

definition flip_seed :: Nam where
  "flip_seed = \<lparr>nam_id = 0, ref_id = 0, ref_start = 2, ref_end = 9,
                 query_start = 0, query_end = 7, n_hits = 2, score = 8, is_rc = True\<rparr>"

subsection \<open>Aligner kernels and alignments\<close>

text \<open>
  The aligner kernels are outside the sources (\<^verbatim>\<open>aligner.hpp\<close>): \<^verbatim>\<open>Aligner::align\<close>
  and the free functions \<^verbatim>\<open>hamming_distance\<close> and \<^verbatim>\<open>hamming_align\<close> are fields of the
  record \<open>Aligner\<close>, so that every theorem about the core holds for every kernel. An
  \<^verbatim>\<open>aln_info\<close> is the kernel's result, a \<^verbatim>\<open>Cigar\<close> a list of encoded operations. The
  fields of \<^verbatim>\<open>aln_info\<close> and \<^verbatim>\<open>Alignment\<close> that share a name with a field of
  \<^verbatim>\<open>Nam\<close> carry the prefix \<open>info_\<close> or \<open>al_\<close>.
\<close>

type_synonym Cigar = "nat list"

record aln_info =
  info_cigar :: Cigar
  info_edit_distance :: int
  info_ref_start :: int
  info_ref_end :: int
  info_query_start :: int
  info_query_end :: int
  sw_score :: int

definition info_ref_span :: "aln_info \<Rightarrow> int" where
  "info_ref_span info = info_ref_end info - info_ref_start info"

record alignment_params =
  match :: int
  mismatch :: int
  gap_open :: int
  gap_extend :: int
  end_bonus :: int

record Aligner =
  parameters :: alignment_params
  align :: "string \<Rightarrow> string \<Rightarrow> aln_info"
  hamming_distance :: "string \<Rightarrow> string \<Rightarrow> int"
  hamming_align :: "string \<Rightarrow> string \<Rightarrow> int \<Rightarrow> int \<Rightarrow> int \<Rightarrow> aln_info"

record Alignment =
  al_ref_id :: int
  al_cigar :: Cigar
  al_ref_start :: int
  al_edit_distance :: int
  global_ed :: int
  al_score :: int
  al_length :: int
  mapq :: int
  al_is_rc :: bool
  is_unaligned :: bool
  gapped :: bool

text \<open>
  Modelled from the spec: a default-constructed \<^verbatim>\<open>Alignment\<close> with the fields of
  the specification's data model (\<^verbatim>\<open>sam.hpp\<close> is not part of the sources). Members
  that the source leaves unset are fixed to zero and \<open>False\<close>; no theorem reads an
  unset member.
\<close>

definition default_Alignment :: Alignment where
  "default_Alignment = \<lparr>al_ref_id = 0, al_cigar = [], al_ref_start = 0, al_edit_distance = 0,
     global_ed = 0, al_score = 0, al_length = 0, mapq = 0, al_is_rc = False,
     is_unaligned = False, gapped = False\<rparr>"

subsection \<open>Extender (lines 219 to 269)\<close>

text \<open>
  \<open>ungapped\<close> is the result of the Hamming fast path when it is taken; otherwise the
  block under \<^verbatim>\<open>if (gapped)\<close> runs. The ratio \<^verbatim>\<open>(float) hamming_dist / query.size()\<close>
  of an empty query is a NaN or an infinity, for which the comparison is false.
\<close>

definition get_alignment :: "Aligner \<Rightarrow> Nam \<Rightarrow> References \<Rightarrow> Read \<Rightarrow> bool \<Rightarrow> Alignment option" where
  "get_alignment aligner nam references read consistent_nam = do {
     let query = (if is_rc nam then rc read else seq read);
     rseq \<leftarrow> vec_at (sequences references) (ref_id nam);
     let query_size = int (length query);
     let ref_size = int (length rseq);
     let projected_ref_start = max 0 (ref_start nam - query_start nam);
     let projected_ref_end = min_size_t (ref_end nam + query_size - query_end nam) ref_size;
     ungapped \<leftarrow>
       (if projected_ref_end - projected_ref_start = query_size \<and> consistent_nam then do {
          ref_segm_ham \<leftarrow> substr rseq projected_ref_start query_size;
          let hamming_dist = hamming_distance aligner query ref_segm_ham;
          if hamming_dist \<ge> 0 \<and> query_size \<noteq> 0 \<and>
             real_of_int hamming_dist / real_of_int query_size < 5 / 100
          then
            let info = hamming_align aligner query ref_segm_ham
                         (match (parameters aligner)) (mismatch (parameters aligner))
                         (end_bonus (parameters aligner))
            in Some (Some (info, projected_ref_start + info_ref_start info))
          else Some None
        } else Some None);
     (info, result_ref_start, is_gapped) \<leftarrow>
       (case ungapped of
          Some (info, result_ref_start) \<Rightarrow> Some (info, result_ref_start, False)
        | None \<Rightarrow> do {
            let diff = \<bar>ref_span nam - query_span nam\<bar>;
            let ext_left = min 50 projected_ref_start;
            let ref_start_w = projected_ref_start - ext_left;
            let ext_right = min_size_t (ref_size - ref_end nam) 50;
            let ref_segm_size = read_size read + diff + ext_left + ext_right;
            ref_segm \<leftarrow> substr rseq ref_start_w ref_segm_size;
            let info = align aligner query ref_segm;
            Some (info, ref_start_w + info_ref_start info, True)
          });
     let softclipped = info_query_start info + (query_size - info_query_end info);
     Some (default_Alignment\<lparr>
       al_cigar := info_cigar info,
       al_edit_distance := info_edit_distance info,
       global_ed := info_edit_distance info + softclipped,
       al_score := sw_score info,
       al_ref_start := result_ref_start,
       al_length := info_ref_span info,
       al_is_rc := is_rc nam,
       is_unaligned := False,
       al_ref_id := ref_id nam,
       gapped := is_gapped\<rparr>)
   }"

subsection \<open>Mate rescuer (lines 451 to 550)\<close>

text \<open>
  \<open>str_find ref_seq submer\<close> is \<^verbatim>\<open>ref_seq.find(submer) != std::string::npos\<close>. The loop of
  \<^verbatim>\<open>has_shared_substring\<close> does not advance when \<^verbatim>\<open>step_size\<close> is 0: it is a partial
  function, with \<open>None\<close> for a run that does not return.
\<close>

fun str_find :: "string \<Rightarrow> string \<Rightarrow> bool" where
  "str_find [] sub = (sub = [])"
| "str_find (c # cs) sub = (take (length sub) (c # cs) = sub \<or> str_find cs sub)"

partial_function (option) shared_loop :: "string \<Rightarrow> string \<Rightarrow> int \<Rightarrow> int \<Rightarrow> int \<Rightarrow> bool option" where
  "shared_loop read_seq ref_seq sub_size step_size i =
     (if 0 \<le> i + sub_size \<and> i + sub_size < int (length read_seq) then
        (case substr read_seq i sub_size of
           None \<Rightarrow> None
         | Some submer \<Rightarrow>
             if str_find ref_seq submer then Some True
             else shared_loop read_seq ref_seq sub_size step_size (i + step_size))
      else Some False)"

definition has_shared_substring :: "string \<Rightarrow> string \<Rightarrow> int \<Rightarrow> bool option" where
  "has_shared_substring read_seq ref_seq k =
     (let sub_size = cdiv (2 * k) 3; step_size = cdiv k 3
      in shared_loop read_seq ref_seq sub_size step_size 0)"

declare shared_loop.simps [code]

text \<open>
  The specification speaks of the substrings of length \<open>\<lfloor>2k/3\<rfloor>\<close> of the mate sequence
  sampled at stride \<open>\<lfloor>k/3\<rfloor>\<close>. \<open>sampled_submers\<close> is written from these words, not from
  the loop: it lists every substring of that length that starts at a multiple of the
  stride and lies within the sequence, the one that ends at the last character
  included.
\<close>

definition sampled_submers :: "string \<Rightarrow> int \<Rightarrow> string list" where
  "sampled_submers s k =
     (let sub_size = nat (2 * k div 3); step_size = nat (k div 3)
      in map (\<lambda>i. take sub_size (drop i s))
           (filter (\<lambda>i. i mod step_size = 0 \<and> i + sub_size \<le> length s) [0 ..< Suc (length s)]))"

text \<open>
  The parts of \<^verbatim>\<open>rescue_mate\<close>: \<open>rescue_target\<close> is the choice of the mate strand and of
  the interval \<open>[a, b]\<close> (lines 482 to 492), \<open>clamp_window\<close> the clamping to the contig
  (lines 495 and 496), \<open>unaligned_sentinel\<close> the assignments of lines 499 to 505 (and 512
  to 518), \<open>rescue_fill\<close> those of lines 541 to 548. The \<^verbatim>\<open>Alignment\<close> is passed by
  reference in the source and returned here, with the seed after the orientation check.

  In \<open>rescue_target\<close>, \<^verbatim>\<open>read_len\<close> is a \<^verbatim>\<open>size_t\<close>, so in lines 485, 489 and 490 the
  sums with \<^verbatim>\<open>read_len\<close> are computed in \<^verbatim>\<open>size_t\<close>: a negative sum wraps to a value
  near \<open>2\<^sup>6\<^sup>4\<close>. In lines 485 and 489 the result is assigned to an \<^verbatim>\<open>int\<close>, which
  gives back the signed sum when it fits 32 bits. In line 490 the sum, wrapped or not,
  is converted to \<^verbatim>\<open>float\<close> and added to \<open>\<mu> + 5\<sigma>\<close> before the conversion to \<^verbatim>\<open>int\<close>,
  which is out of range for a wrapped sum; line 484 subtracts in \<^verbatim>\<open>int\<close> before the
  conversion to \<^verbatim>\<open>float\<close>. The floating-point operations themselves are exact here, as in the whole
  theory: the source rounds each converted coordinate and each sum to 24 significant
  bits, so the interval of the model is that of the source when the coordinates,
  \<open>\<mu>\<close> and \<open>\<sigma>\<close> are integers and no intermediate value exceeds \<open>2\<^sup>2\<^sup>4\<close> in absolute
  value, as in every evaluation below, and may differ from it by the rounding otherwise.
\<close>

definition rescue_target :: "Nam \<Rightarrow> Read \<Rightarrow> real \<Rightarrow> real \<Rightarrow> string \<times> int \<times> int \<times> bool" where
  "rescue_target nam read \<mu> \<sigma> =
     (let read_len = read_size read in
      if is_rc nam then
        (seq read,
         float_to_int (real_of_int (ref_start nam - query_start nam) - (\<mu> + 5 * \<sigma>)),
         int_of_size_t (size_t_of (ref_start nam - query_start nam + read_len div 2)),
         False)
      else
        (rc read,
         int_of_size_t (size_t_of (ref_end nam + (read_len - query_end nam) - read_len div 2)),
         float_to_int
           (real_of_int (size_t_of (ref_end nam + (read_len - query_end nam))) + (\<mu> + 5 * \<sigma>)),
         True))"

definition clamp_window :: "int \<Rightarrow> int \<Rightarrow> int \<Rightarrow> int \<times> int" where
  "clamp_window a b ref_len = (max 0 (min a ref_len), min ref_len (max 0 b))"

definition unaligned_sentinel :: "Alignment \<Rightarrow> Nam \<Rightarrow> int \<Rightarrow> Alignment" where
  "unaligned_sentinel alignment nam read_len =
     alignment\<lparr>al_cigar := [], al_edit_distance := read_len, al_score := 0, al_ref_start := 0,
               al_is_rc := is_rc nam, al_ref_id := ref_id nam, is_unaligned := True\<rparr>"

definition rescue_fill :: "Alignment \<Rightarrow> aln_info \<Rightarrow> int \<Rightarrow> bool \<Rightarrow> Nam \<Rightarrow> Alignment" where
  "rescue_fill alignment info ref_start_w a_is_rc nam =
     alignment\<lparr>al_cigar := info_cigar info, al_edit_distance := info_edit_distance info,
               al_score := sw_score info, al_ref_start := ref_start_w + info_ref_start info,
               al_is_rc := a_is_rc, al_ref_id := ref_id nam,
               is_unaligned := (info_cigar info = []), al_length := info_ref_span info\<rparr>"

definition rescue_mate ::
  "Aligner \<Rightarrow> Nam \<Rightarrow> References \<Rightarrow> Read \<Rightarrow> Read \<Rightarrow> Alignment \<Rightarrow> real \<Rightarrow> real \<Rightarrow> int \<Rightarrow>
   (bool \<times> Alignment \<times> Nam) option" where
  "rescue_mate aligner nam0 references guide read alignment \<mu> \<sigma> k = do {
     let read_len = read_size read;
     (consistent, nam) \<leftarrow> reverse_nam_if_needed nam0 guide references k;
     let (r_tmp, a, b, a_is_rc) = rescue_target nam read \<mu> \<sigma>;
     ref_len \<leftarrow> vec_at (lengths references) (ref_id nam);
     let (ref_start_w, ref_end_w) = clamp_window a b ref_len;
     if ref_end_w < ref_start_w + k then
       Some (False, unaligned_sentinel alignment nam read_len, nam)
     else do {
       rseq \<leftarrow> vec_at (sequences references) (ref_id nam);
       ref_segm \<leftarrow> substr rseq ref_start_w (ref_end_w - ref_start_w);
       shared \<leftarrow> has_shared_substring r_tmp ref_segm k;
       if \<not> shared then
         Some (False, unaligned_sentinel alignment nam read_len, nam)
       else
         let info = align aligner r_tmp ref_segm
         in Some (True, rescue_fill alignment info ref_start_w a_is_rc nam, nam)
     }
   }"

subsection \<open>A small kernel for evaluation\<close>

text \<open>
  An ungapped kernel that compares the query with the start of the reference window:
  2 per match, 8 per mismatch, and an empty alignment (empty CIGAR, score 0) when no
  position matches. It serves to run the core on concrete inputs.
\<close>

fun count_matches :: "string \<Rightarrow> string \<Rightarrow> int" where
  "count_matches (a # as) (b # bs) = (if a = b then 1 else 0) + count_matches as bs"
| "count_matches _ _ = 0"

definition simple_align :: "string \<Rightarrow> string \<Rightarrow> aln_info" where
  "simple_align query ref_segm =
     (let m = count_matches query ref_segm; n = int (length query)
      in if m = 0 then
           \<lparr>info_cigar = [], info_edit_distance = n, info_ref_start = 0, info_ref_end = 0,
            info_query_start = 0, info_query_end = 0, sw_score = 0\<rparr>
         else
           \<lparr>info_cigar = [length query], info_edit_distance = n - m, info_ref_start = 0,
            info_ref_end = n, info_query_start = 0, info_query_end = n,
            sw_score = 2 * m - 8 * (n - m)\<rparr>)"

definition simple_hamming_distance :: "string \<Rightarrow> string \<Rightarrow> int" where
  "simple_hamming_distance a b =
     (if length a \<noteq> length b then -1 else int (length a) - count_matches a b)"

definition simple_hamming_align :: "string \<Rightarrow> string \<Rightarrow> int \<Rightarrow> int \<Rightarrow> int \<Rightarrow> aln_info" where
  "simple_hamming_align query ref_segm ma mi eb =
     (let m = count_matches query ref_segm; n = int (length query)
      in \<lparr>info_cigar = [length query], info_edit_distance = n - m, info_ref_start = 0,
          info_ref_end = n, info_query_start = 0, info_query_end = n,
          sw_score = ma * m - mi * (n - m)\<rparr>)"

definition simple_aligner :: Aligner where
  "simple_aligner =
     \<lparr>parameters = \<lparr>match = 2, mismatch = 8, gap_open = 12, gap_extend = 1, end_bonus = 10\<rparr>,
      align = simple_align,
      hamming_distance = simple_hamming_distance,
      hamming_align = simple_hamming_align\<rparr>"

text \<open>
  A guide read placed at the start of a contig, with \<open>k = 6\<close> (substrings of length 4
  at stride 2), and three mates. The reverse complement of \<open>mate_read\<close> has its 4-mer
  at position 0 in the rescue window and matching positions. That of \<open>tail_mate_read\<close>
  has in the window only its last 4-mer \<open>TTTT\<close>, which starts at position 6, a multiple
  of the stride, and ends at the last base. That of \<open>far_mate_read\<close> has its 4-mer at
  position 2 in the window of \<open>far_refs\<close>, but no matching position at the window start.
  \<open>long_guide_read\<close> is a guide read of 20 bases whose last 6 bases are the first 6 of
  the contig, with the seed \<open>back_seed\<close> on them: for a mate of 10 bases the sum
  \<^verbatim>\<open>nam.ref_end + (read_len - nam.query_end)\<close> of line 490 is \<open>6 + (10 - 20)\<close>, negative
  before it wraps.
\<close>

definition guide_read :: Read where
  "guide_read = \<lparr>seq = ''ACGTACGTAC'', rc = ''GTACGTACGT''\<rparr>"

definition mate_read :: Read where
  "mate_read = \<lparr>seq = ''GGATCCTTAA'', rc = ''TTAAGGATCC''\<rparr>"

definition rescue_refs :: References where
  "rescue_refs = \<lparr>sequences = [''ACGTACGTACTTTTTTAAGGATCCTTTT''], lengths = [28]\<rparr>"

definition guide_seed :: Nam where
  "guide_seed = \<lparr>nam_id = 0, ref_id = 0, ref_start = 0, ref_end = 10,
                  query_start = 0, query_end = 10, n_hits = 3, score = 30, is_rc = False\<rparr>"

definition tail_mate_read :: Read where
  "tail_mate_read = \<lparr>seq = ''AAAATTTTTT'', rc = ''AAAAAATTTT''\<rparr>"

definition long_guide_read :: Read where
  "long_guide_read = \<lparr>seq = ''TTTTTTTTTTTTTTACGTAC'', rc = ''GTACGTAAAAAAAAAAAAAA''\<rparr>"

definition back_seed :: Nam where
  "back_seed = \<lparr>nam_id = 0, ref_id = 0, ref_start = 0, ref_end = 6,
                 query_start = 14, query_end = 20, n_hits = 3, score = 30, is_rc = False\<rparr>"

definition far_mate_read :: Read where
  "far_mate_read = \<lparr>seq = ''GGATCCGGTC'', rc = ''GACCGGATCC''\<rparr>"

definition far_refs :: References where
  "far_refs = \<lparr>sequences = [''ACGTACGTACCCCAAGGATTTTT''], lengths = [23]\<rparr>"

text \<open>A contig that differs from the guide read at every position.\<close>

definition empty_cigar_refs :: References where
  "empty_cigar_refs = \<lparr>sequences = [''CATGCATGCA''], lengths = [10]\<rparr>"

subsection \<open>Proper-pair predicate on seeds (lines 347 to 361)\<close>

definition is_proper_nam_pair :: "Nam \<Rightarrow> Nam \<Rightarrow> real \<Rightarrow> real \<Rightarrow> bool" where
  "is_proper_nam_pair nam1 nam2 \<mu> \<sigma> =
     (if ref_id nam1 \<noteq> ref_id nam2 \<or> is_rc nam1 = is_rc nam2 then False
      else
        let a = max 0 (ref_start nam1 - query_start nam2);
            b = max 0 (ref_start nam2 - query_start nam2);
            r1_r2 = (is_rc nam2 \<and> a \<le> b \<and> real_of_int (b - a) < \<mu> + 10 * \<sigma>);
            r2_r1 = (is_rc nam1 \<and> b \<le> a \<and> real_of_int (a - b) < \<mu> + 10 * \<sigma>)
        in r1_r2 \<or> r2_r1)"

text \<open>
  Two seeds on the same contig: a forward seed whose projected start is clamped at the
  contig start, and a reverse seed 190 bases downstream.
\<close>

definition seed_fwd :: Nam where
  "seed_fwd = \<lparr>nam_id = 0, ref_id = 0, ref_start = 10, ref_end = 40,
                query_start = 0, query_end = 30, n_hits = 3, score = 90, is_rc = False\<rparr>"

definition seed_rev :: Nam where
  "seed_rev = \<lparr>nam_id = 0, ref_id = 0, ref_start = 200, ref_end = 230,
                query_start = 100, query_end = 130, n_hits = 3, score = 90, is_rc = True\<rparr>"

subsection \<open>Seed-pair enumeration (lines 363 to 445)\<close>

text \<open>
  A candidate is the tuple \<^verbatim>\<open>(joint_hits, n1, n2)\<close>. The two
  \<^verbatim>\<open>robin_hood::unordered_set<int>\<close> of paired seed ids are sets of integers. The
  nested loop over \<^verbatim>\<open>nams1\<close> and \<^verbatim>\<open>nams2\<close> (lines 378 to 393) is \<open>joint_outer\<close>
  around \<open>joint_inner\<close>; a \<^verbatim>\<open>break\<close> returns the state, a \<^verbatim>\<open>continue\<close> goes on with
  the rest of the list.
\<close>

type_synonym cand = "int \<times> Nam \<times> Nam"

record joint_state =
  joint_nam_scores :: "cand list"
  added_n1 :: "int set"
  added_n2 :: "int set"
  hjss :: int

fun joint_inner :: "real \<Rightarrow> real \<Rightarrow> Nam \<Rightarrow> Nam list \<Rightarrow> joint_state \<Rightarrow> joint_state" where
  "joint_inner \<mu> \<sigma> n1 [] st = st"
| "joint_inner \<mu> \<sigma> n1 (n2 # rest) st =
     (if n_hits n1 + n_hits n2 < cdiv (hjss st) 2 then st
      else joint_inner \<mu> \<sigma> n1 rest
        (if is_proper_nam_pair n1 n2 \<mu> \<sigma> then
           let joint_hits = n_hits n1 + n_hits n2
           in st\<lparr>joint_nam_scores := joint_nam_scores st @ [(joint_hits, n1, n2)],
                 added_n1 := insert (nam_id n1) (added_n1 st),
                 added_n2 := insert (nam_id n2) (added_n2 st),
                 hjss := (if joint_hits > hjss st then joint_hits else hjss st)\<rparr>
         else st))"

fun joint_outer :: "real \<Rightarrow> real \<Rightarrow> Nam list \<Rightarrow> Nam list \<Rightarrow> joint_state \<Rightarrow> joint_state" where
  "joint_outer \<mu> \<sigma> [] nams2 st = st"
| "joint_outer \<mu> \<sigma> (n1 # rest) nams2 st = joint_outer \<mu> \<sigma> rest nams2 (joint_inner \<mu> \<sigma> n1 nams2 st)"

text \<open>
  Modelled from the spec: the default-constructed \<^verbatim>\<open>Nam\<close> (\<^verbatim>\<open>nam.hpp\<close> is not part
  of the sources). The specification says of the dummy only that it is a sentinel seed
  with \<open>ref_start = -1\<close>; the other fields are fixed to zero here and no theorem reads
  them.
\<close>

definition default_Nam :: Nam where
  "default_Nam = \<lparr>nam_id = 0, ref_id = 0, ref_start = 0, ref_end = 0,
                   query_start = 0, query_end = 0, n_hits = 0, score = 0, is_rc = False\<rparr>"

definition dummy_nan :: Nam where
  "dummy_nan = default_Nam\<lparr>ref_start := -1\<rparr>"

text \<open>The two loops that append individual candidates (lines 397 to 431).\<close>

fun individual_n1 :: "int \<Rightarrow> int set \<Rightarrow> Nam list \<Rightarrow> cand list \<Rightarrow> cand list" where
  "individual_n1 hjss1 added [] acc = acc"
| "individual_n1 hjss1 added (n1 # rest) acc =
     (if n_hits n1 < cdiv hjss1 2 then acc
      else if nam_id n1 \<in> added then individual_n1 hjss1 added rest acc
      else individual_n1 hjss1 added rest (acc @ [(n_hits n1, n1, dummy_nan)]))"

fun individual_n2 :: "int \<Rightarrow> int set \<Rightarrow> Nam list \<Rightarrow> cand list \<Rightarrow> cand list" where
  "individual_n2 hjss2 added [] acc = acc"
| "individual_n2 hjss2 added (n2 # rest) acc =
     (if n_hits n2 < cdiv hjss2 2 then acc
      else if nam_id n2 \<in> added then individual_n2 hjss2 added rest acc
      else individual_n2 hjss2 added rest (acc @ [(n_hits n2, dummy_nan, n2)]))"

text \<open>
  \<^verbatim>\<open>std::sort\<close> with the comparator \<^verbatim>\<open>get<0>(a) > get<0>(b)\<close>. The order of
  candidates with equal scores is unspecified in C++; the model keeps their order.
\<close>

definition sort_by_score_desc :: "cand list \<Rightarrow> cand list" where
  "sort_by_score_desc cs = sort_key (\<lambda>c. - fst c) cs"

definition get_best_scoring_nam_locations :: "Nam list \<Rightarrow> Nam list \<Rightarrow> real \<Rightarrow> real \<Rightarrow> cand list" where
  "get_best_scoring_nam_locations nams1 nams2 \<mu> \<sigma> =
     (if nams1 = [] \<and> nams2 = [] then []
      else
        let st = joint_outer \<mu> \<sigma> nams1 nams2
                   \<lparr>joint_nam_scores = [], added_n1 = {}, added_n2 = {}, hjss = 0\<rparr>;
            scores1 =
              (if nams1 \<noteq> [] then
                 let hjss1 = (if hjss st > 0 then hjss st else n_hits (hd nams1))
                 in individual_n1 hjss1 (added_n1 st) nams1 (joint_nam_scores st)
               else joint_nam_scores st);
            scores2 =
              (if nams2 \<noteq> [] then
                 let hjss2 = (if hjss st > 0 then hjss st else n_hits (hd nams2))
                 in individual_n2 hjss2 (added_n2 st) nams2 scores1
               else scores1)
        in sort_by_score_desc scores2)"

text \<open>
  The result as the specification words it: after the joint enumeration with highest
  joint hit count \<open>H\<close>, an individual candidate for every \<open>n1\<close> that is not paired
  and has \<open>n_hits \<ge> max(H, nams1[0].n_hits) / 2\<close>, the same for \<open>n2\<close>, then sorted.
\<close>

definition top_hits :: "Nam list \<Rightarrow> int" where
  "top_hits nams = (case nams of [] \<Rightarrow> 0 | n # _ \<Rightarrow> n_hits n)"

definition nam_locations_claimed :: "Nam list \<Rightarrow> Nam list \<Rightarrow> real \<Rightarrow> real \<Rightarrow> cand list" where
  "nam_locations_claimed nams1 nams2 \<mu> \<sigma> =
     (if nams1 = [] \<and> nams2 = [] then []
      else
        let st = joint_outer \<mu> \<sigma> nams1 nams2
                   \<lparr>joint_nam_scores = [], added_n1 = {}, added_n2 = {}, hjss = 0\<rparr>;
            H = hjss st;
            indiv1 = map (\<lambda>n1. (n_hits n1, n1, dummy_nan))
                       (filter (\<lambda>n1. nam_id n1 \<notin> added_n1 st \<and>
                                      n_hits n1 \<ge> cdiv (max H (top_hits nams1)) 2) nams1);
            indiv2 = map (\<lambda>n2. (n_hits n2, dummy_nan, n2))
                       (filter (\<lambda>n2. nam_id n2 \<notin> added_n2 st \<and>
                                      n_hits n2 \<ge> cdiv (max H (top_hits nams2)) 2) nams2)
        in sort_by_score_desc (joint_nam_scores st @ indiv1 @ indiv2))"

text \<open>
  The result as the loops compute it: the threshold is \<open>H\<close> when \<open>H > 0\<close> and the
  top seed's hit count otherwise, and only the seeds before the first one below half the
  threshold are looked at.
\<close>

definition nam_locations_amended :: "Nam list \<Rightarrow> Nam list \<Rightarrow> real \<Rightarrow> real \<Rightarrow> cand list" where
  "nam_locations_amended nams1 nams2 \<mu> \<sigma> =
     (if nams1 = [] \<and> nams2 = [] then []
      else
        let st = joint_outer \<mu> \<sigma> nams1 nams2
                   \<lparr>joint_nam_scores = [], added_n1 = {}, added_n2 = {}, hjss = 0\<rparr>;
            H = hjss st;
            T1 = (if H > 0 then H else top_hits nams1);
            T2 = (if H > 0 then H else top_hits nams2);
            indiv1 = map (\<lambda>n1. (n_hits n1, n1, dummy_nan))
                       (filter (\<lambda>n1. nam_id n1 \<notin> added_n1 st)
                          (takeWhile (\<lambda>n1. n_hits n1 \<ge> cdiv T1 2) nams1));
            indiv2 = map (\<lambda>n2. (n_hits n2, dummy_nan, n2))
                       (filter (\<lambda>n2. nam_id n2 \<notin> added_n2 st)
                          (takeWhile (\<lambda>n2. n_hits n2 \<ge> cdiv T2 2) nams2))
        in sort_by_score_desc (joint_nam_scores st @ indiv1 @ indiv2))"

text \<open>
  Seeds sorted by score whose hit counts are not monotone, and a reverse-strand seed of
  the mate.
\<close>

definition nam_a :: Nam where
  "nam_a = \<lparr>nam_id = 0, ref_id = 0, ref_start = 100, ref_end = 160,
             query_start = 0, query_end = 60, n_hits = 10, score = 600, is_rc = False\<rparr>"
definition nam_b :: Nam where
  "nam_b = \<lparr>nam_id = 1, ref_id = 0, ref_start = 4000, ref_end = 4140,
             query_start = 0, query_end = 140, n_hits = 2, score = 280, is_rc = False\<rparr>"
definition nam_c :: Nam where
  "nam_c = \<lparr>nam_id = 2, ref_id = 0, ref_start = 9000, ref_end = 9030,
             query_start = 0, query_end = 30, n_hits = 8, score = 240, is_rc = False\<rparr>"

definition nam_r :: Nam where
  "nam_r = \<lparr>nam_id = 0, ref_id = 0, ref_start = 300, ref_end = 340,
             query_start = 0, query_end = 40, n_hits = 4, score = 160, is_rc = True\<rparr>"

subsection \<open>MAPQ (lines 271 to 300)\<close>

text \<open>
  \<^verbatim>\<open>get_mapq\<close> returns \<^verbatim>\<open>uint8_t\<close>: the \<^verbatim>\<open>int\<close> value
  \<^verbatim>\<open>std::min(uncapped_mapq, 60)\<close> is reduced modulo 256 by the return.
\<close>

definition get_mapq :: "Nam list \<Rightarrow> Nam \<Rightarrow> int" where
  "get_mapq nams n_max =
     (if length nams \<le> 1 then 60
      else
        let s1 = score n_max;
            s2 = score (nams ! 1);
            min_matches = min (real_of_int (n_hits n_max) / 10) 1;
            uncapped_mapq = trunc_int (40 * (1 - s2 / s1) * min_matches * ln s1)
        in (min uncapped_mapq 60) mod 256)"

definition joint_mapq_from_alignment_scores :: "real \<Rightarrow> real \<Rightarrow> int \<times> int" where
  "joint_mapq_from_alignment_scores score1 score2 =
     (let mapq =
        (if score1 = score2 then 0
         else
           let diff = trunc_int (score1 - score2)
           in if score1 > 0 \<and> score2 > 0 then min 60 diff
              else if score1 > 0 \<and> score2 \<le> 0 then 60
              else 1)
      in (mapq, mapq))"

text \<open>A seed list sorted by score, highest first, whose scores are below 1.\<close>

definition low_score_top :: Nam where
  "low_score_top = \<lparr>nam_id = 0, ref_id = 0, ref_start = 10, ref_end = 40,
                      query_start = 0, query_end = 30, n_hits = 10, score = 1 / 2, is_rc = False\<rparr>"

definition low_score_second :: Nam where
  "low_score_second = \<lparr>nam_id = 1, ref_id = 0, ref_start = 500, ref_end = 530,
                      query_start = 0, query_end = 30, n_hits = 5, score = 1 / 4, is_rc = False\<rparr>"

text \<open>A seed list sorted by score with integral scores.\<close>

definition good_top :: Nam where
  "good_top = \<lparr>nam_id = 0, ref_id = 0, ref_start = 10, ref_end = 40,
                 query_start = 0, query_end = 30, n_hits = 3, score = 90, is_rc = False\<rparr>"

definition good_second :: Nam where
  "good_second = \<lparr>nam_id = 1, ref_id = 0, ref_start = 500, ref_end = 530,
                 query_start = 0, query_end = 30, n_hits = 1, score = 30, is_rc = False\<rparr>"

subsection \<open>Insert-size estimator (lines 1035 to 1057)\<close>

text \<open>
  \<^verbatim>\<open>class i_dist_est\<close> is declared in \<^verbatim>\<open>aln.hpp\<close> with five \<^verbatim>\<open>float\<close> members.
  The two diagnostics written to \<^verbatim>\<open>std::cerr\<close> at the end of \<^verbatim>\<open>update\<close> do not
  change the state and are left out. The parameter \<^verbatim>\<open>dist\<close> is written \<open>d\<close>.
\<close>

record i_dist_est =
  sample_size :: real
  mu :: real
  sigma :: real
  V :: real
  SSE :: real

definition update :: "i_dist_est \<Rightarrow> int \<Rightarrow> i_dist_est" where
  "update st d =
     (if d \<ge> 2000 then st
      else
        let e = real_of_int d - mu st;
            st1 = st\<lparr>mu := mu st + e / sample_size st\<rparr>;
            st2 = st1\<lparr>SSE := SSE st1 + e * (real_of_int d - mu st1)\<rparr>;
            st3 = (if sample_size st2 > 1
                   then st2\<lparr>V := SSE st2 / (sample_size st2 - 1)\<rparr>
                   else st2\<lparr>V := SSE st2\<rparr>);
            st4 = st3\<lparr>sigma := sqrt (V st3)\<rparr>
        in st4\<lparr>sample_size := sample_size st4 + 1\<rparr>)"

text \<open>
  The step as the specification words it: \<open>e = d - \<mu>\<close>, \<open>\<mu> += e / n\<close>,
  \<open>SSE += e (d - \<mu>)\<close>, \<open>V = SSE / (n - 1)\<close> if \<open>n > 1\<close> else \<open>SSE\<close>,
  \<open>\<sigma> = \<surd>V\<close>, \<open>n += 1\<close>.
\<close>

definition welford_step :: "i_dist_est \<Rightarrow> int \<Rightarrow> i_dist_est" where
  "welford_step st d =
     (let n = sample_size st;
          e = real_of_int d - mu st;
          new_mu = mu st + e / n;
          new_SSE = SSE st + e * (real_of_int d - new_mu);
          new_V = (if n > 1 then new_SSE / (n - 1) else new_SSE)
      in \<lparr>sample_size = n + 1, mu = new_mu, sigma = sqrt new_V, V = new_V, SSE = new_SSE\<rparr>)"

subsection \<open>Single-end driver (lines 72 to 155)\<close>

text \<open>
  \<^verbatim>\<open>Details\<close> has the three counters that \<^verbatim>\<open>align_SE\<close> updates. The output writer
  \<^verbatim>\<open>Sam\<close> is outside the sources: the model returns the list of records that the call
  adds, \<open>Unmapped\<close> for \<^verbatim>\<open>add_unmapped\<close> and \<open>Mapped alignment is_primary\<close> for
  \<^verbatim>\<open>add\<close>. The \<^verbatim>\<open>KSeq\<close> record enters only through \<^verbatim>\<open>Read read(record.seq)\<close>, so the
  model takes the \<^verbatim>\<open>Read\<close>.

  \<open>se_state\<close> holds the local variables of the seed loop, \<open>se_init\<close> their values
  before the loop (lines 90 to 100), \<open>se_stop\<close> the condition of the \<^verbatim>\<open>break\<close> (lines 103
  and 104, with the division by a top hit count of 0 written out: a positive quotient is
  infinite, a NaN compares false), \<open>se_body\<close> one iteration (lines 107 to 127), and
  \<open>se_loop\<close> the loop. The seed that the orientation check may flip in place is used for
  the rest of its iteration only.
\<close>

record Details =
  nam_inconsistent :: int
  tried_alignment :: int
  details_gapped :: int

datatype sam_record = Unmapped | Mapped Alignment bool

record se_state =
  alignments :: "Alignment list"
  tries :: int
  best_edit_distance :: int
  best_score :: int
  best_alignment :: Alignment
  min_mapq_diff :: int
  details :: Details

definition se_init :: "Details \<Rightarrow> se_state" where
  "se_init d =
     \<lparr>alignments = [], tries = 0, best_edit_distance = INT_MAX, best_score = -1000,
      best_alignment = default_Alignment\<lparr>al_score := -100000, is_unaligned := True\<rparr>,
      min_mapq_diff = INT_MAX, details = d\<rparr>"

definition score_dropoff_below :: "Nam \<Rightarrow> Nam \<Rightarrow> real \<Rightarrow> bool" where
  "score_dropoff_below nam n_max dropoff_threshold =
     (if n_hits n_max = 0 then n_hits nam < 0
      else real_of_int (n_hits nam) / real_of_int (n_hits n_max) < dropoff_threshold)"

definition se_stop :: "real \<Rightarrow> int \<Rightarrow> Nam \<Rightarrow> se_state \<Rightarrow> Nam \<Rightarrow> bool" where
  "se_stop dropoff_threshold max_tries n_max st nam =
     (tries st \<ge> max_tries \<or> (tries st > 1 \<and> best_edit_distance st = 0) \<or>
      score_dropoff_below nam n_max dropoff_threshold)"

definition se_body ::
  "Aligner \<Rightarrow> Read \<Rightarrow> int \<Rightarrow> References \<Rightarrow> nat \<Rightarrow> se_state \<Rightarrow> Nam \<Rightarrow> se_state option" where
  "se_body aligner read k references max_secondary st nam0 = do {
     (consistent_nam, nam) \<leftarrow> reverse_nam_if_needed nam0 read references k;
     let d1 = (details st)\<lparr>nam_inconsistent :=
                nam_inconsistent (details st) + (if consistent_nam then 0 else 1)\<rparr>;
     alignment \<leftarrow> get_alignment aligner nam references read consistent_nam;
     let d2 = d1\<lparr>tried_alignment := tried_alignment d1 + 1,
                 details_gapped := details_gapped d1 + (if gapped alignment then 1 else 0)\<rparr>;
     let diff_to_best = \<bar>best_score st - al_score alignment\<bar>;
     let st1 = st\<lparr>details := d2, min_mapq_diff := min (min_mapq_diff st) diff_to_best\<rparr>;
     let st2 = (if max_secondary > 0 then st1\<lparr>alignments := alignments st1 @ [alignment]\<rparr>
                else st1);
     let st3 =
       (if al_score alignment > best_score st2 then
          let st4 = st2\<lparr>min_mapq_diff := max 0 (al_score alignment - best_score st2),
                        best_score := al_score alignment,
                        best_alignment := alignment\<rparr>
          in if max_secondary = 0
             then st4\<lparr>best_edit_distance := global_ed (best_alignment st4)\<rparr>
             else st4
        else st2);
     Some (st3\<lparr>tries := tries st3 + 1\<rparr>)
   }"

fun se_loop ::
  "Aligner \<Rightarrow> Read \<Rightarrow> int \<Rightarrow> References \<Rightarrow> real \<Rightarrow> int \<Rightarrow> nat \<Rightarrow> Nam \<Rightarrow> Nam list \<Rightarrow> se_state \<Rightarrow>
   se_state option" where
  "se_loop aligner read k references dropoff_threshold max_tries max_secondary n_max [] st = Some st"
| "se_loop aligner read k references dropoff_threshold max_tries max_secondary n_max (nam # rest) st =
     (if se_stop dropoff_threshold max_tries n_max st nam then Some st
      else do {
        st' \<leftarrow> se_body aligner read k references max_secondary st nam;
        se_loop aligner read k references dropoff_threshold max_tries max_secondary n_max rest st'
      })"

text \<open>
  The emission (lines 129 to 154). \<^verbatim>\<open>std::sort\<close> leaves the order of alignments with
  equal scores unspecified; the model keeps their order.
\<close>

definition sort_alignments :: "Alignment list \<Rightarrow> Alignment list" where
  "sort_alignments as = sort_key (\<lambda>a. - al_score a) as"

fun emit_loop :: "alignment_params \<Rightarrow> int \<Rightarrow> int \<Rightarrow> nat \<Rightarrow> Alignment list \<Rightarrow> sam_record list" where
  "emit_loop p best min_diff i [] = []"
| "emit_loop p best min_diff i (alignment # rest) =
     (if al_score alignment - best > 2 * mismatch p + gap_open p then []
      else
        let is_primary = (i = 0);
            a = alignment\<lparr>mapq := (if is_primary then min min_diff 60 else 255)\<rparr>
        in Mapped a is_primary # emit_loop p best min_diff (Suc i) rest)"

definition align_SE ::
  "Aligner \<Rightarrow> Nam list \<Rightarrow> Read \<Rightarrow> int \<Rightarrow> References \<Rightarrow> Details \<Rightarrow> real \<Rightarrow> int \<Rightarrow> nat \<Rightarrow>
   (sam_record list \<times> Details) option" where
  "align_SE aligner nams read k references details0 dropoff_threshold max_tries max_secondary =
     (case nams of
        [] \<Rightarrow> Some ([Unmapped], details0)
      | n_max # _ \<Rightarrow> do {
          st \<leftarrow> se_loop aligner read k references dropoff_threshold max_tries max_secondary
                  n_max nams (se_init details0);
          if max_secondary = 0 then
            Some ([Mapped ((best_alignment st)\<lparr>mapq := min (min_mapq_diff st) 60\<rparr>) True],
                  details st)
          else
            let sorted = sort_alignments (alignments st);
                max_out = min (length sorted) (max_secondary + 1)
            in Some (emit_loop (parameters aligner) (best_score st) (min_mapq_diff st) 0
                       (take max_out sorted),
                     details st)
        })"

text \<open>
  The stop condition as the specification words it, with the current best alignment's
  \<open>global_ed\<close> whatever \<open>max_secondary\<close> is; and as the loop has it, where the edit
  distance of the best alignment is recorded only when \<open>max_secondary = 0\<close>, and only
  once an alignment has scored above the initial \<open>best_score\<close> of \<open>-1000\<close>.
\<close>

definition se_stop_claimed :: "real \<Rightarrow> int \<Rightarrow> Nam \<Rightarrow> se_state \<Rightarrow> Nam \<Rightarrow> bool" where
  "se_stop_claimed dropoff_threshold max_tries n_max st nam =
     (tries st \<ge> max_tries \<or> (tries st > 1 \<and> global_ed (best_alignment st) = 0) \<or>
      score_dropoff_below nam n_max dropoff_threshold)"

definition se_stop_amended :: "real \<Rightarrow> int \<Rightarrow> nat \<Rightarrow> Nam \<Rightarrow> se_state \<Rightarrow> Nam \<Rightarrow> bool" where
  "se_stop_amended dropoff_threshold max_tries max_secondary n_max st nam =
     (tries st \<ge> max_tries \<or>
      (max_secondary = 0 \<and> tries st > 1 \<and> best_score st > -1000 \<and>
       global_ed (best_alignment st) = 0) \<or>
      score_dropoff_below nam n_max dropoff_threshold)"

text \<open>The states of the loop before an iteration.\<close>

inductive se_reachable ::
  "Aligner \<Rightarrow> Read \<Rightarrow> int \<Rightarrow> References \<Rightarrow> real \<Rightarrow> int \<Rightarrow> nat \<Rightarrow> Nam \<Rightarrow> Details \<Rightarrow> se_state \<Rightarrow> bool"
  for aligner read k references dropoff_threshold max_tries max_secondary n_max details0
where
  start: "se_reachable aligner read k references dropoff_threshold max_tries max_secondary n_max
            details0 (se_init details0)"
| iterate: "se_reachable aligner read k references dropoff_threshold max_tries max_secondary n_max
              details0 st \<Longrightarrow>
            \<not> se_stop dropoff_threshold max_tries n_max st nam \<Longrightarrow>
            se_body aligner read k references max_secondary st nam = Some st' \<Longrightarrow>
            se_reachable aligner read k references dropoff_threshold max_tries max_secondary n_max
              details0 st'"

text \<open>
  A read of 20 bases and three contigs: the first and the third equal the read, the
  second differs from it at three positions.
\<close>

definition se_read :: Read where
  "se_read = \<lparr>seq = ''ACGTTGCAAGCTTCGGATCA'', rc = ''TGATCCGAAGCTTGCAACGT''\<rparr>"

definition se_refs :: References where
  "se_refs = \<lparr>sequences = [''ACGTTGCAAGCTTCGGATCA'', ''ACGTTGTAAGATTCTGATCA'', ''ACGTTGCAAGCTTCGGATCA''],
              lengths = [20, 20, 20]\<rparr>"

definition se_seed :: "int \<Rightarrow> int \<Rightarrow> Nam" where
  "se_seed i h = \<lparr>nam_id = i, ref_id = i, ref_start = 0, ref_end = 20,
                  query_start = 0, query_end = 20, n_hits = h, score = real_of_int (20 * h), is_rc = False\<rparr>"

definition no_details :: Details where
  "no_details = \<lparr>nam_inconsistent = 0, tried_alignment = 0, details_gapped = 0\<rparr>"

text \<open>The state after two seeds that match the read exactly, for \<open>max_secondary = 0\<close>.\<close>

definition two_perfect :: se_state where
  "two_perfect =
     \<lparr>alignments = [], tries = 2, best_edit_distance = 0, best_score = 40,
      best_alignment =
        \<lparr>al_ref_id = 0, al_cigar = [20], al_ref_start = 0, al_edit_distance = 0,
         global_ed = 0, al_score = 40, al_length = 20, mapq = 0, al_is_rc = False,
         is_unaligned = False, gapped = False\<rparr>,
      min_mapq_diff = 0,
      details = \<lparr>nam_inconsistent = 0, tried_alignment = 2, details_gapped = 0\<rparr>\<rparr>"

text \<open>
  The alignments of the read to the first and to the second contig, with the MAPQ of a
  primary and of a secondary.
\<close>

definition exact_primary :: Alignment where
  "exact_primary =
     \<lparr>al_ref_id = 0, al_cigar = [20], al_ref_start = 0, al_edit_distance = 0,
      global_ed = 0, al_score = 40, al_length = 20, mapq = 30, al_is_rc = False,
      is_unaligned = False, gapped = False\<rparr>"

definition distant_secondary :: Alignment where
  "distant_secondary =
     \<lparr>al_ref_id = 1, al_cigar = [20], al_ref_start = 0, al_edit_distance = 3,
      global_ed = 3, al_score = 10, al_length = 20, mapq = 255, al_is_rc = False,
      is_unaligned = False, gapped = True\<rparr>"

text \<open>The state after the same two seeds for \<open>max_secondary = 1\<close>.\<close>

definition two_perfect_kept :: se_state where
  "two_perfect_kept =
     \<lparr>alignments =
        [\<lparr>al_ref_id = 0, al_cigar = [20], al_ref_start = 0, al_edit_distance = 0,
          global_ed = 0, al_score = 40, al_length = 20, mapq = 0, al_is_rc = False,
          is_unaligned = False, gapped = False\<rparr>,
         \<lparr>al_ref_id = 2, al_cigar = [20], al_ref_start = 0, al_edit_distance = 0,
          global_ed = 0, al_score = 40, al_length = 20, mapq = 0, al_is_rc = False,
          is_unaligned = False, gapped = False\<rparr>],
      tries = 2, best_edit_distance = INT_MAX, best_score = 40,
      best_alignment =
        \<lparr>al_ref_id = 0, al_cigar = [20], al_ref_start = 0, al_edit_distance = 0,
         global_ed = 0, al_score = 40, al_length = 20, mapq = 0, al_is_rc = False,
         is_unaligned = False, gapped = False\<rparr>,
      min_mapq_diff = 0,
      details = \<lparr>nam_inconsistent = 0, tried_alignment = 2, details_gapped = 0\<rparr>\<rparr>"

section \<open>Theorems\<close>

subsection \<open>Arithmetic helpers\<close>

lemma trunc_int_nonneg: "0 \<le> x \<Longrightarrow> 0 \<le> trunc_int x"
  by (simp add: trunc_int_def)

text \<open>
  A sum computed in \<^verbatim>\<open>size_t\<close> and assigned to an \<^verbatim>\<open>int\<close> is the signed sum when that
  fits 32 bits, also when it is negative.
\<close>

lemma int_of_size_t_of:
  assumes "- 2147483648 \<le> x" "x < 2147483648"
  shows "int_of_size_t (size_t_of x) = x"
proof -
  have d: "(4294967296::int) dvd 18446744073709551616" by simp
  have "(x mod 18446744073709551616 + 2147483648) mod 4294967296 =
        (x mod 18446744073709551616 mod 4294967296 + 2147483648) mod 4294967296"
    by (simp only: mod_add_left_eq)
  also have "\<dots> = (x mod 4294967296 + 2147483648) mod 4294967296"
    by (simp only: mod_mod_cancel[OF d])
  also have "\<dots> = (x + 2147483648) mod 4294967296"
    by (simp only: mod_add_left_eq)
  also have "\<dots> = x + 2147483648"
    using assms by simp
  finally show ?thesis by (simp add: int_of_size_t_def size_t_of_def)
qed

lemma ln2_lower: "13 / 20 < ln (2::real)"
proof -
  have "(1 - (13/20) / real 8) ^ 8 \<le> exp (- (13/20 :: real))"
    by (rule exp_ge_one_minus_x_over_n_power_n) simp_all
  moreover have "(1/2 :: real) < (1 - (13/20) / real 8) ^ 8"
    by (simp add: power_divide)
  ultimately have "(1/2::real) < exp (- (13/20))" by linarith
  then have "ln (1/2::real) < ln (exp (- (13/20)))"
    by (subst ln_less_cancel_iff) simp_all
  then show ?thesis by (simp add: ln_div)
qed

lemma ln2_upper: "ln (2::real) < 14 / 20"
proof -
  have "(1 + (14/20) / real 64) ^ 64 \<le> exp (14/20 :: real)"
    by (rule exp_ge_one_plus_x_over_n_power_n) simp_all
  moreover have "(2 :: real) < (1 + (14/20) / real 64) ^ 64"
    by (simp add: power_divide)
  ultimately have "(2::real) < exp (14/20)" by linarith
  then have "ln (2::real) < ln (exp (14/20))"
    by (subst ln_less_cancel_iff) simp_all
  then show ?thesis by simp
qed

subsection \<open>Orientation verifier\<close>

lemma substr_Some: "0 \<le> p \<Longrightarrow> p \<le> int (length s) \<Longrightarrow> \<exists>t. substr s p n = Some t"
  by (simp add: substr_def)

text \<open>Whenever the first call returns, the second call returns the same pair.\<close>

lemma reverse_nam_again:
  assumes "reverse_nam_if_needed nam read refs k = Some (b, nam')"
  shows "reverse_nam_if_needed nam' read refs k = Some (b, nam')"
proof -
  define sq where "sq = (if is_rc nam then rc read else seq read)"
  define sqrc where "sqrc = (if is_rc nam then seq read else rc read)"
  define L where "L = int (length (seq read))"
  have unf: "reverse_nam_if_needed nam read refs k =
      vec_at (sequences refs) (ref_id nam) \<bind> (\<lambda>rseq.
      substr rseq (ref_start nam) k \<bind> (\<lambda>rsk.
      substr rseq (ref_end nam - k) k \<bind> (\<lambda>rek.
      substr sq (query_start nam) k \<bind> (\<lambda>a.
      substr sq (query_end nam - k) k \<bind> (\<lambda>e.
      if rsk = a \<and> rek = e then Some (True, nam)
      else substr sqrc (L - query_end nam) k \<bind> (\<lambda>fa.
           substr sqrc (L - query_start nam - k) k \<bind> (\<lambda>fe.
           if rsk = fa \<and> rek = fe
           then Some (True, nam\<lparr>is_rc := \<not> is_rc nam, query_start := L - query_end nam,
                                 query_end := L - query_start nam\<rparr>)
           else Some (False, nam))))))))"
    unfolding reverse_nam_if_needed_def Let_def read_size_def sq_def sqrc_def L_def by simp
  from assms[unfolded unf] obtain rseq rsk rek a e where
    r: "vec_at (sequences refs) (ref_id nam) = Some rseq"
    and rs: "substr rseq (ref_start nam) k = Some rsk"
    and re: "substr rseq (ref_end nam - k) k = Some rek"
    and qa: "substr sq (query_start nam) k = Some a"
    and qe: "substr sq (query_end nam - k) k = Some e"
    and rest: "(if rsk = a \<and> rek = e then Some (True, nam)
      else substr sqrc (L - query_end nam) k \<bind> (\<lambda>fa.
           substr sqrc (L - query_start nam - k) k \<bind> (\<lambda>fe.
           if rsk = fa \<and> rek = fe
           then Some (True, nam\<lparr>is_rc := \<not> is_rc nam, query_start := L - query_end nam,
                                 query_end := L - query_start nam\<rparr>)
           else Some (False, nam)))) = Some (b, nam')"
    by (auto simp only: bind_eq_Some_conv)
  show ?thesis
  proof (cases "rsk = a \<and> rek = e")
    case True
    with rest have "nam' = nam" "b = True" by simp_all
    then show ?thesis using assms by simp
  next
    case False
    with rest obtain fa fe where
      f1: "substr sqrc (L - query_end nam) k = Some fa"
      and f2: "substr sqrc (L - query_start nam - k) k = Some fe"
      and rest2: "(if rsk = fa \<and> rek = fe
           then Some (True, nam\<lparr>is_rc := \<not> is_rc nam, query_start := L - query_end nam,
                                 query_end := L - query_start nam\<rparr>)
           else Some (False, nam)) = Some (b, nam')"
      by (auto simp only: bind_eq_Some_conv if_False)
    show ?thesis
    proof (cases "rsk = fa \<and> rek = fe")
      case True
      with rest2 have n: "nam' = nam\<lparr>is_rc := \<not> is_rc nam, query_start := L - query_end nam,
                                 query_end := L - query_start nam\<rparr>" and b: "b = True" by simp_all
      have s: "(if is_rc nam' then rc read else seq read) = sqrc"
        by (simp add: n sqrc_def)
      have "reverse_nam_if_needed nam' read refs k = Some (True, nam')"
        unfolding reverse_nam_if_needed_def Let_def s
        using r rs re f1 f2 True by (simp add: n)
      then show ?thesis by (simp add: b)
    next
      case False
      with rest2 have "nam' = nam" "b = False" by simp_all
      then show ?thesis using assms by simp
    qed
  qed
qed

text \<open>A seed within bounds never makes \<^verbatim>\<open>substr\<close> throw: the call returns.\<close>

lemma reverse_nam_returns:
  assumes "nam_in_bounds nam read refs k"
  shows "\<exists>r. reverse_nam_if_needed nam read refs k = Some r"
proof -
  define sq where "sq = (if is_rc nam then rc read else seq read)"
  define sqrc where "sqrc = (if is_rc nam then seq read else rc read)"
  define L where "L = int (length (seq read))"
  from assms obtain rseq where r: "vec_at (sequences refs) (ref_id nam) = Some rseq"
    by (auto simp: nam_in_bounds_def split: option.splits)
  with assms have b: "0 \<le> k" "length (rc read) = length (seq read)"
     "0 \<le> ref_start nam" "ref_start nam + k \<le> ref_end nam" "ref_end nam \<le> int (length rseq)"
     "0 \<le> query_start nam" "query_start nam + k \<le> query_end nam"
     "query_end nam \<le> int (length (seq read))"
    by (simp_all add: nam_in_bounds_def)
  have len: "int (length sq) = L" "int (length sqrc) = L"
    using b(2) by (simp_all add: sq_def sqrc_def L_def)
  obtain rsk where rs: "substr rseq (ref_start nam) k = Some rsk"
    using substr_Some[of "ref_start nam" rseq k] b by auto
  obtain rek where re: "substr rseq (ref_end nam - k) k = Some rek"
    using substr_Some[of "ref_end nam - k" rseq k] b by auto
  obtain a where qa: "substr sq (query_start nam) k = Some a"
    using substr_Some[of "query_start nam" sq k] b len L_def by auto
  obtain e where qe: "substr sq (query_end nam - k) k = Some e"
    using substr_Some[of "query_end nam - k" sq k] b len L_def by auto
  obtain fa where f1: "substr sqrc (L - query_end nam) k = Some fa"
    using substr_Some[of "L - query_end nam" sqrc k] b len L_def by auto
  obtain fe where f2: "substr sqrc (L - query_start nam - k) k = Some fe"
    using substr_Some[of "L - query_start nam - k" sqrc k] b len L_def by auto
  show ?thesis
    unfolding reverse_nam_if_needed_def Let_def read_size_def
    using r rs re qa qe f1 f2
    by (auto simp add: sq_def[symmetric] sqrc_def[symmetric] L_def[symmetric])
qed

text \<open>
  C9. \<^verbatim>\<open>reverse_nam_if_needed\<close> is idempotent: for every seed whose query and
  reference spans are in bounds and at least \<open>k\<close> long, the call returns, and a second
  call on the resulting seed with the same read, references and \<open>k\<close> returns the same
  boolean and leaves the seed (so its \<open>is_rc\<close>, \<open>query_start\<close> and \<open>query_end\<close>) as
  the first call left it.
\<close>

theorem reverse_nam_if_needed_idempotent:
  assumes "nam_in_bounds nam read references k"
  shows "\<exists>b nam'. reverse_nam_if_needed nam read references k = Some (b, nam') \<and>
                   reverse_nam_if_needed nam' read references k = Some (b, nam')"
proof -
  from reverse_nam_returns[OF assms] obtain b nam' where
    "reverse_nam_if_needed nam read references k = Some (b, nam')" by auto
  then show ?thesis using reverse_nam_again by blast
qed

theorem reverse_nam_if_needed_idempotent_witness:
  "reverse_nam_if_needed flip_seed flip_read flip_refs 2 = Some (True, flip_seed\<lparr>is_rc := False\<rparr>) \<and>
   reverse_nam_if_needed (flip_seed\<lparr>is_rc := False\<rparr>) flip_read flip_refs 2 =
     Some (True, flip_seed\<lparr>is_rc := False\<rparr>)"
proof -
  have h: "nam_in_bounds flip_seed flip_read flip_refs 2"
    by (simp add: nam_in_bounds_def flip_seed_def flip_read_def flip_refs_def vec_at_def)
  have first: "reverse_nam_if_needed flip_seed flip_read flip_refs 2 =
                 Some (True, flip_seed\<lparr>is_rc := False\<rparr>)"
    by (simp add: reverse_nam_if_needed_def flip_seed_def flip_read_def flip_refs_def
        vec_at_def substr_def read_size_def)
  show ?thesis
    using first reverse_nam_if_needed_idempotent[OF h] by auto
qed

subsection \<open>Extender and mate rescuer\<close>

lemma shared_loop_eq:
  assumes "0 < step" 
  shows "shared_loop r w (int sub) (int step) (int m) =
     Some (\<exists>j. m + j * step + sub < length r \<and> str_find w (take sub (drop (m + j * step) r)))"
proof (induction "length r - m" arbitrary: m rule: less_induct)
  case less
  show ?case
  proof (cases "m + sub < length r")
    case False
    then have "shared_loop r w (int sub) (int step) (int m) = Some False"
      by (subst shared_loop.simps) simp
    moreover have "\<not> (\<exists>j. m + j * step + sub < length r \<and> str_find w (take sub (drop (m + j * step) r)))"
      using False by auto
    ultimately show ?thesis by simp
  next
    case True
    have sub: "substr r (int m) (int sub) = Some (take sub (drop m r))"
      using True by (simp add: substr_def)
    show ?thesis
    proof (cases "str_find w (take sub (drop m r))")
      case found: True
      have "shared_loop r w (int sub) (int step) (int m) = Some True"
        using True found by (subst shared_loop.simps) (simp add: sub)
      moreover have "\<exists>j. m + j * step + sub < length r \<and> str_find w (take sub (drop (m + j * step) r))"
        using True found by (intro exI[of _ 0]) simp
      ultimately show ?thesis by simp
    next
      case nf: False
      have step: "shared_loop r w (int sub) (int step) (int m) = shared_loop r w (int sub) (int step) (int (m + step))"
        using True nf by (subst shared_loop.simps) (simp add: sub)
      have "length r - (m + step) < length r - m" using True assms by simp
      from less[OF this] have ih: "shared_loop r w (int sub) (int step) (int (m + step)) =
         Some (\<exists>j. m + step + j * step + sub < length r \<and> str_find w (take sub (drop (m + step + j * step) r)))" .
      have "(\<exists>j. m + j * step + sub < length r \<and> str_find w (take sub (drop (m + j * step) r))) \<longleftrightarrow>
            (\<exists>j. m + step + j * step + sub < length r \<and> str_find w (take sub (drop (m + step + j * step) r)))"
        (is "?L \<longleftrightarrow> ?R")
      proof
        assume ?L
        then obtain j where j: "m + j * step + sub < length r" "str_find w (take sub (drop (m + j * step) r))" by blast
        with nf have "j \<noteq> 0" by (cases j) auto
        then obtain j' where "j = Suc j'" by (cases j) auto
        with j show ?R by (intro exI[of _ j']) (simp add: add.assoc add.commute)
      next
        assume ?R
        then obtain j where j: "m + step + j * step + sub < length r" "str_find w (take sub (drop (m + step + j * step) r))" by blast
        then show ?L by (intro exI[of _ "Suc j"]) (simp add: add.assoc add.commute)
      qed
      then show ?thesis by (simp only: step ih)
    qed
  qed
qed

lemma cdiv_nonneg: "0 \<le> a \<Longrightarrow> 0 < b \<Longrightarrow> cdiv a b = a div b"
  by (cases "a = 0") (simp_all add: cdiv_def sgn_if)

lemma has_shared_substring_scan:
  assumes "3 \<le> k"
  shows "has_shared_substring r w k =
     Some (\<exists>j. j * nat (k div 3) + nat (2 * k div 3) < length r \<and>
               str_find w (take (nat (2 * k div 3)) (drop (j * nat (k div 3)) r)))"
proof -
  define sub where "sub = nat (2 * k div 3)"
  define step where "step = nat (k div 3)"
  have step_pos: "0 < step" using assms by (simp add: step_def zdiv_int [symmetric] pos_imp_zdiv_pos_iff)
  have c1: "cdiv (2 * k) 3 = int sub" using assms by (simp add: cdiv_nonneg sub_def)
  have c2: "cdiv k 3 = int step" using assms by (simp add: cdiv_nonneg step_def)
  have "has_shared_substring r w k = shared_loop r w (int sub) (int step) (int 0)"
    by (simp add: has_shared_substring_def c1 c2)
  also have "\<dots> = Some (\<exists>j. 0 + j * step + sub < length r \<and> str_find w (take sub (drop (0 + j * step) r)))"
    by (rule shared_loop_eq[OF step_pos])
  finally show ?thesis by (simp add: sub_def step_def)
qed

text \<open>
  The substrings that the specification names differ from those that the loop tests
  only in the bound: \<open>\<le>\<close> here, \<open><\<close> in \<open>has_shared_substring_scan\<close>.
\<close>

lemma sampled_submers_iff:
  assumes "3 \<le> k"
  shows "list_ex P (sampled_submers r k) \<longleftrightarrow>
     (\<exists>j. j * nat (k div 3) + nat (2 * k div 3) \<le> length r \<and>
          P (take (nat (2 * k div 3)) (drop (j * nat (k div 3)) r)))"
proof -
  define sub where "sub = nat (2 * k div 3)"
  define step where "step = nat (k div 3)"
  have step_pos: "0 < step" using assms by (simp add: step_def zdiv_int [symmetric] pos_imp_zdiv_pos_iff)
  have "list_ex P (sampled_submers r k) \<longleftrightarrow>
        (\<exists>j. j * step + sub \<le> length r \<and> P (take sub (drop (j * step) r)))" (is "?L \<longleftrightarrow> ?R")
  proof
    assume ?R
    then obtain j where j: "j * step + sub \<le> length r" "P (take sub (drop (j * step) r))" by auto
    then have "j * step \<in> set (filter (\<lambda>i. i mod step = 0 \<and> i + sub \<le> length r) [0 ..< Suc (length r)])"
      by (simp del: upt_Suc)
    then show ?L using j(2)
      unfolding sampled_submers_def Let_def sub_def[symmetric] step_def[symmetric] list_ex_iff
      by (intro bexI[of _ "take sub (drop (j * step) r)"]) (auto simp del: upt_Suc)
  next
    assume ?L
    then obtain i where i: "i + sub \<le> length r" "i mod step = 0" "P (take sub (drop i r))"
      unfolding sampled_submers_def Let_def sub_def[symmetric] step_def[symmetric] list_ex_iff
      by (auto simp del: upt_Suc)
    from i(2) have "step dvd i" by (simp add: mod_eq_0_iff_dvd)
    then obtain j where "i = step * j" by (rule dvdE)
    then have "i = j * step" by simp
    with i show ?R by (intro exI[of _ j]) auto
  qed
  then show ?thesis by (simp add: sub_def step_def)
qed

text \<open>
  \<^verbatim>\<open>rescue_mate\<close> on every input with \<open>k \<ge> 3\<close> (a positive stride) on which the
  orientation check returns and the contig length table does not exceed the contig:
  it returns \<open>false\<close>, and the alignment with an empty CIGAR, edit distance
  \<open>read_len\<close>, score 0, reference start 0, the seed's strand and contig and
  \<open>is_unaligned = true\<close>, when the clamped window is shorter than \<open>k\<close> or none of the
  substrings that the loop tests occurs in it; otherwise it returns \<open>true\<close> and the
  alignment filled from the result of the kernel on the mate sequence and the window.
\<close>

lemma rescue_mate_scan:
  assumes k: "3 \<le> k"
    and rn: "reverse_nam_if_needed nam guide references k = Some (c, nam')"
    and len: "vec_at (lengths references) (ref_id nam') = Some ref_len"
    and sq: "vec_at (sequences references) (ref_id nam') = Some rseq"
    and le: "ref_len \<le> int (length rseq)"
    and tg: "rescue_target nam' read \<mu> \<sigma> = (r_tmp, a, b, a_is_rc)"
    and cw: "clamp_window a b ref_len = (ws, we)"
    and wd: "window = take (nat (we - ws)) (drop (nat ws) rseq)"
    and inf: "info = align aligner r_tmp window"
  shows "rescue_mate aligner nam references guide read alignment \<mu> \<sigma> k =
     Some (if we - ws < k \<or>
              \<not> (\<exists>j. j * nat (k div 3) + nat (2 * k div 3) < length r_tmp \<and>
                     str_find window (take (nat (2 * k div 3)) (drop (j * nat (k div 3)) r_tmp)))
           then (False,
                 alignment\<lparr>al_cigar := [], al_edit_distance := read_size read, al_score := 0,
                            al_ref_start := 0, al_is_rc := is_rc nam', al_ref_id := ref_id nam',
                            is_unaligned := True\<rparr>,
                 nam')
           else (True,
                 alignment\<lparr>al_cigar := info_cigar info,
                            al_edit_distance := info_edit_distance info,
                            al_score := sw_score info,
                            al_ref_start := ws + info_ref_start info,
                            al_is_rc := a_is_rc, al_ref_id := ref_id nam',
                            is_unaligned := (info_cigar info = []),
                            al_length := info_ref_end info - info_ref_start info\<rparr>,
                 nam'))"
proof (cases "we < ws + k")
  case True
  then show ?thesis
    unfolding rescue_mate_def Let_def using rn len tg cw by (simp add: unaligned_sentinel_def)
next
  case False
  have ws: "0 \<le> ws" "ws \<le> ref_len" "0 \<le> ref_len"
    using cw le False k by (auto simp: clamp_window_def)
  have "0 \<le> we - ws" using False k by simp
  then have sub: "substr rseq ws (we - ws) = Some window"
    using ws le by (simp add: substr_def wd)
  show ?thesis
    unfolding rescue_mate_def Let_def using rn len tg cw False sq sub
    by (simp add: has_shared_substring_scan[OF k] unaligned_sentinel_def rescue_fill_def
        info_ref_span_def inf)
qed

text \<open>
  A mate whose first sampled substring occurs in the window: the kernel runs.
\<close>

lemma rescue_mate_attempted:
  "rescue_mate simple_aligner guide_seed rescue_refs guide_read mate_read default_Alignment 10 2 6 =
     Some (True,
           \<lparr>al_ref_id = 0, al_cigar = [10], al_ref_start = 5, al_edit_distance = 8,
            global_ed = 0, al_score = - 60, al_length = 10, mapq = 0,
            al_is_rc = True, is_unaligned = False, gapped = False\<rparr>,
           guide_seed)"
  by code_simp

text \<open>
  A seed for which the sum of line 490 is negative: it wraps, the upper end of the
  interval is \<^verbatim>\<open>INT_MIN\<close>, the clamped window is empty and the sentinel is returned.
\<close>

lemma rescue_mate_wrapped_sum:
  "rescue_target back_seed mate_read 10 2 = (''TTAAGGATCC'', - 9, - 2147483648, True) \<and>
   clamp_window (- 9) (- 2147483648) 28 = (0, 0) \<and>
   rescue_mate simple_aligner back_seed rescue_refs long_guide_read mate_read default_Alignment 10 2 6 =
     Some (False,
           \<lparr>al_ref_id = 0, al_cigar = [], al_ref_start = 0, al_edit_distance = 10,
            global_ed = 0, al_score = 0, al_length = 0, mapq = 0,
            al_is_rc = False, is_unaligned = True, gapped = False\<rparr>,
           back_seed)"
  by code_simp

text \<open>
  C6. \<^verbatim>\<open>rescue_mate\<close> returns \<open>attempted = false\<close> with the unaligned sentinel
  (score 0, edit distance \<open>read_len\<close>, \<open>is_unaligned = true\<close>) if and only if the clamped
  reference window is shorter than \<open>k\<close> or no substring of length \<open>\<lfloor>2k/3\<rfloor>\<close> of the mate
  sequence sampled at stride \<open>\<lfloor>k/3\<rfloor>\<close> occurs in the window; in every other case it
  runs the aligner kernel and returns \<open>attempted = true\<close>.

  The code does not do so for the mate \<open>tail_mate_read\<close> with \<open>k = 6\<close>. The guide seed
  covers bases 0 to 10 of the contig, the interval is \<open>[5, 30]\<close> and the clamped window
  \<open>[5, 28)\<close> has 23 bases, not fewer than \<open>k\<close>. The substrings of length 4 of the mate's
  reverse complement \<open>AAAAAATTTT\<close> sampled at stride 2 start at 0, 2, 4 and 6, and the
  last, \<open>TTTT\<close>, occurs in the window. Yet \<^verbatim>\<open>rescue_mate\<close> returns \<open>false\<close> and the
  sentinel, and the kernel does not run: the loop of \<^verbatim>\<open>has_shared_substring\<close> runs
  while \<^verbatim>\<open>i + sub_size < read_seq.size()\<close> (line 455), so the substring that ends at
  the last base of the mate is never tested.
\<close>

theorem rescue_mate_skips_last_submer:
  "rescue_mate simple_aligner guide_seed rescue_refs guide_read tail_mate_read default_Alignment 10 2 6 =
     Some (False,
           \<lparr>al_ref_id = 0, al_cigar = [], al_ref_start = 0, al_edit_distance = 10,
            global_ed = 0, al_score = 0, al_length = 0, mapq = 0,
            al_is_rc = False, is_unaligned = True, gapped = False\<rparr>,
           guide_seed) \<and>
   reverse_nam_if_needed guide_seed guide_read rescue_refs 6 = Some (True, guide_seed) \<and>
   rescue_target guide_seed tail_mate_read 10 2 = (''AAAAAATTTT'', 5, 30, True) \<and>
   clamp_window 5 30 28 = (5, 28) \<and>
   substr ''ACGTACGTACTTTTTTAAGGATCCTTTT'' 5 (28 - 5) = Some ''CGTACTTTTTTAAGGATCCTTTT'' \<and>
   sampled_submers ''AAAAAATTTT'' 6 = [''AAAA'', ''AAAA'', ''AATT'', ''TTTT''] \<and>
   str_find ''CGTACTTTTTTAAGGATCCTTTT'' ''TTTT'' \<and>
   has_shared_substring ''AAAAAATTTT'' ''CGTACTTTTTTAAGGATCCTTTT'' 6 = Some False"
  by code_simp

theorem rescue_mate_skips_last_submer_witness:
  "map_option fst
     (rescue_mate simple_aligner guide_seed rescue_refs guide_read tail_mate_read default_Alignment 10 2 6) =
     Some False \<and>
   list_ex (str_find ''CGTACTTTTTTAAGGATCCTTTT'') (sampled_submers ''AAAAAATTTT'' 6)"
  using rescue_mate_skips_last_submer by simp

text \<open>
  The flag \<open>is_unaligned\<close> on the two paths that call the kernel. \<^verbatim>\<open>get_alignment\<close>
  assigns \<open>false\<close> (line 264) on every path; \<^verbatim>\<open>rescue_mate\<close> assigns
  \<^verbatim>\<open>info.cigar.empty()\<close> after the kernel call (line 547) and \<open>true\<close> with the sentinel.
\<close>

lemma get_alignment_aligned:
  assumes "get_alignment aligner nam references read c = Some al"
  shows "\<not> is_unaligned al"
  using assms unfolding get_alignment_def Let_def
  by (auto simp: bind_eq_Some_conv split: prod.splits)

lemma rescue_mate_unaligned:
  assumes "rescue_mate aligner nam references guide read alignment \<mu> \<sigma> k = Some (attempted, al, nam')"
  shows "is_unaligned al \<longleftrightarrow> \<not> attempted \<or> al_cigar al = []"
proof -
  obtain c nam1 where rn: "reverse_nam_if_needed nam guide references k = Some (c, nam1)"
    using assms by (cases "reverse_nam_if_needed nam guide references k") (auto simp: rescue_mate_def)
  obtain r_tmp a b a_is_rc where tg: "rescue_target nam1 read \<mu> \<sigma> = (r_tmp, a, b, a_is_rc)"
    by (metis prod_cases4)
  obtain ref_len where len: "vec_at (lengths references) (ref_id nam1) = Some ref_len"
    using assms rn tg
    by (cases "vec_at (lengths references) (ref_id nam1)") (auto simp: rescue_mate_def Let_def)
  obtain ws we where cw: "clamp_window a b ref_len = (ws, we)" by fastforce
  show ?thesis
  proof (cases "we < ws + k")
    case True
    with assms have "attempted = False" "al = unaligned_sentinel alignment nam1 (read_size read)"
      by (auto simp add: rescue_mate_def Let_def rn tg len cw)
    then show ?thesis by (simp add: unaligned_sentinel_def)
  next
    case False
    obtain rseq where sq: "vec_at (sequences references) (ref_id nam1) = Some rseq"
      using assms False
      by (cases "vec_at (sequences references) (ref_id nam1)")
         (auto simp: rescue_mate_def Let_def rn tg len cw)
    obtain ref_segm where sg: "substr rseq ws (we - ws) = Some ref_segm"
      using assms False
      by (cases "substr rseq ws (we - ws)") (auto simp: rescue_mate_def Let_def rn tg len cw sq)
    obtain shared where sh: "has_shared_substring r_tmp ref_segm k = Some shared"
      using assms False
      by (cases "has_shared_substring r_tmp ref_segm k")
         (auto simp: rescue_mate_def Let_def rn tg len cw sq sg)
    show ?thesis
    proof (cases shared)
      case True
      with assms False have "attempted = True"
        "al = rescue_fill alignment (align aligner r_tmp ref_segm) ws a_is_rc nam1"
        by (auto simp add: rescue_mate_def Let_def rn tg len cw sq sg sh)
      then show ?thesis by (simp add: rescue_fill_def)
    next
      case f: False
      with assms False have "attempted = False" "al = unaligned_sentinel alignment nam1 (read_size read)"
        by (auto simp add: rescue_mate_def Let_def rn tg len cw sq sg sh)
      then show ?thesis by (simp add: unaligned_sentinel_def)
    qed
  qed
qed

text \<open>
  With the kernel above, a rescue whose window has a sampled substring of the mate but
  no matching position at its start: the kernel returns an empty CIGAR and
  \<^verbatim>\<open>rescue_mate\<close> marks the alignment unaligned.
\<close>

lemma rescue_mate_empty_cigar_unaligned:
  "rescue_mate simple_aligner guide_seed far_refs guide_read far_mate_read default_Alignment 10 2 6 =
     Some (True,
           \<lparr>al_ref_id = 0, al_cigar = [], al_ref_start = 5, al_edit_distance = 10,
            global_ed = 0, al_score = 0, al_length = 0, mapq = 0,
            al_is_rc = True, is_unaligned = True, gapped = False\<rparr>,
           guide_seed)"
  by code_simp

text \<open>
  C3. Every alignment for which the kernel returned an empty CIGAR has
  \<open>is_unaligned = true\<close>, whether it comes from \<^verbatim>\<open>get_alignment\<close> or from
  \<^verbatim>\<open>rescue_mate\<close>.

  \<^verbatim>\<open>get_alignment\<close> does not do so. For the seed \<open>guide_seed\<close> of the read
  \<open>ACGTACGTAC\<close> on a contig \<open>CATGCATGCA\<close> that differs from the read at every position,
  with \<open>consistent_nam = false\<close>, the gapped path calls the kernel, the kernel above
  returns an empty CIGAR, and \<^verbatim>\<open>get_alignment\<close> returns the alignment with the empty
  CIGAR and \<open>is_unaligned = false\<close>.
\<close>

theorem get_alignment_empty_cigar_aligned:
  "get_alignment simple_aligner guide_seed empty_cigar_refs guide_read False =
     Some \<lparr>al_ref_id = 0, al_cigar = [], al_ref_start = 0, al_edit_distance = 10,
            global_ed = 20, al_score = 0, al_length = 0, mapq = 0,
            al_is_rc = False, is_unaligned = False, gapped = True\<rparr>"
  by (simp add: get_alignment_def guide_seed_def empty_cigar_refs_def guide_read_def
      simple_aligner_def simple_align_def vec_at_def substr_def read_size_def min_size_t_def
      ref_span_def query_span_def info_ref_span_def default_Alignment_def Let_def)

theorem get_alignment_empty_cigar_aligned_witness:
  "map_option al_cigar
     (get_alignment simple_aligner guide_seed empty_cigar_refs guide_read False) = Some [] \<and>
   map_option is_unaligned
     (get_alignment simple_aligner guide_seed empty_cigar_refs guide_read False) = Some False"
  using get_alignment_empty_cigar_aligned by simp

subsection \<open>Single-end driver\<close>

lemma se_body_cases:
  assumes "se_body aligner read k references max_secondary st nam = Some st'"
  obtains alignment where
    "best_score st' = max (best_score st) (al_score alignment)"
    "tries st' = tries st + 1"
    "al_score alignment > best_score st \<Longrightarrow> best_alignment st' = alignment"
    "al_score alignment > best_score st \<Longrightarrow> max_secondary = 0 \<Longrightarrow>
       best_edit_distance st' = global_ed alignment"
    "al_score alignment > best_score st \<Longrightarrow> max_secondary \<noteq> 0 \<Longrightarrow>
       best_edit_distance st' = best_edit_distance st"
    "\<not> al_score alignment > best_score st \<Longrightarrow>
       best_alignment st' = best_alignment st \<and> best_edit_distance st' = best_edit_distance st"
proof -
  obtain c nam1 where rn: "reverse_nam_if_needed nam read references k = Some (c, nam1)"
    using assms by (cases "reverse_nam_if_needed nam read references k") (auto simp: se_body_def)
  obtain alignment where ga: "get_alignment aligner nam1 references read c = Some alignment"
    using assms rn
    by (cases "get_alignment aligner nam1 references read c") (auto simp: se_body_def Let_def)
  have "best_score st' = max (best_score st) (al_score alignment)"
    "tries st' = tries st + 1"
    "al_score alignment > best_score st \<Longrightarrow> best_alignment st' = alignment"
    "al_score alignment > best_score st \<Longrightarrow> max_secondary = 0 \<Longrightarrow>
       best_edit_distance st' = global_ed alignment"
    "al_score alignment > best_score st \<Longrightarrow> max_secondary \<noteq> 0 \<Longrightarrow>
       best_edit_distance st' = best_edit_distance st"
    "\<not> al_score alignment > best_score st \<Longrightarrow>
       best_alignment st' = best_alignment st \<and> best_edit_distance st' = best_edit_distance st"
    using assms by (auto simp: se_body_def Let_def rn ga)
  then show ?thesis by (rule that)
qed

lemma se_init_inv:
  "-1000 \<le> best_score (se_init d) \<and>
   best_edit_distance (se_init d) =
     (if max_secondary = 0 \<and> best_score (se_init d) > -1000
      then global_ed (best_alignment (se_init d)) else INT_MAX)"
  by (simp add: se_init_def)

lemma se_body_inv:
  assumes b: "se_body aligner read k references max_secondary st nam = Some st'"
    and inv: "-1000 \<le> best_score st \<and>
      best_edit_distance st =
        (if max_secondary = 0 \<and> best_score st > -1000
         then global_ed (best_alignment st) else INT_MAX)"
  shows "-1000 \<le> best_score st' \<and>
      best_edit_distance st' =
        (if max_secondary = 0 \<and> best_score st' > -1000
         then global_ed (best_alignment st') else INT_MAX)"
proof -
  obtain alignment where f:
    "best_score st' = max (best_score st) (al_score alignment)"
    "tries st' = tries st + 1"
    "al_score alignment > best_score st \<Longrightarrow> best_alignment st' = alignment"
    "al_score alignment > best_score st \<Longrightarrow> max_secondary = 0 \<Longrightarrow>
       best_edit_distance st' = global_ed alignment"
    "al_score alignment > best_score st \<Longrightarrow> max_secondary \<noteq> 0 \<Longrightarrow>
       best_edit_distance st' = best_edit_distance st"
    "\<not> al_score alignment > best_score st \<Longrightarrow>
       best_alignment st' = best_alignment st \<and> best_edit_distance st' = best_edit_distance st"
    by (rule se_body_cases[OF b]) (rule that; assumption)
  show ?thesis
  proof (cases "al_score alignment > best_score st")
    case True
    then show ?thesis using f inv by (cases "max_secondary = 0") auto
  next
    case False
    then have "best_score st' = best_score st" using f(1) by simp
    then show ?thesis using f(6)[OF False] inv by simp
  qed
qed

lemma se_reachable_inv:
  assumes "se_reachable aligner read k references dropoff_threshold max_tries max_secondary n_max details0 st"
  shows "-1000 \<le> best_score st \<and>
      best_edit_distance st =
        (if max_secondary = 0 \<and> best_score st > -1000
         then global_ed (best_alignment st) else INT_MAX)"
  using assms
proof (induction rule: se_reachable.induct)
  case start
  show ?case by (rule se_init_inv)
next
  case (iterate st nam st')
  from se_body_inv[OF iterate.hyps(3) iterate.IH] show ?case .
qed

lemma se_stop_amended_iff:
  assumes "se_reachable aligner read k references dropoff_threshold max_tries max_secondary n_max details0 st"
  shows "se_stop dropoff_threshold max_tries n_max st nam \<longleftrightarrow>
         se_stop_amended dropoff_threshold max_tries max_secondary n_max st nam"
  using se_reachable_inv[OF assms]
  by (auto simp: se_stop_def se_stop_amended_def INT_MAX_def)

text \<open>
  C2, amended. In \<^verbatim>\<open>align_SE\<close>, at every state that the seed loop reaches before an
  iteration, the loop stops (it returns the state and attempts no further alignment)
  exactly when one of these holds: \<open>tries \<ge> max_tries\<close>; or \<open>max_secondary = 0\<close> and
  \<open>tries > 1\<close> and the best alignment so far, one that scored above \<open>-1000\<close>, has
  \<open>global_ed = 0\<close>; or the seed's \<open>n_hits\<close> divided by the top seed's \<open>n_hits\<close> is
  below \<open>dropoff_threshold\<close>. Otherwise it runs the iteration on the seed.
\<close>

theorem se_loop_stops_iff:
  assumes "se_reachable aligner read k references dropoff_threshold max_tries max_secondary n_max details0 st"
  shows "se_loop aligner read k references dropoff_threshold max_tries max_secondary n_max (nam # rest) st =
     (if se_stop_amended dropoff_threshold max_tries max_secondary n_max st nam then Some st
      else se_body aligner read k references max_secondary st nam \<bind>
           se_loop aligner read k references dropoff_threshold max_tries max_secondary n_max rest)"
  using se_stop_amended_iff[OF assms, of nam] by simp

lemma se_loop_reachable:
  assumes "se_reachable aligner read k references dropoff_threshold max_tries max_secondary n_max details0 st"
    and "se_loop aligner read k references dropoff_threshold max_tries max_secondary n_max nams st = Some st'"
  shows "se_reachable aligner read k references dropoff_threshold max_tries max_secondary n_max details0 st'"
  using assms
proof (induction nams arbitrary: st)
  case Nil
  then show ?case by simp
next
  case (Cons nam rest)
  show ?case
  proof (cases "se_stop dropoff_threshold max_tries n_max st nam")
    case True
    with Cons.prems show ?thesis by simp
  next
    case False
    with Cons.prems(2) obtain st1 where
      b: "se_body aligner read k references max_secondary st nam = Some st1"
      and l: "se_loop aligner read k references dropoff_threshold max_tries max_secondary n_max rest st1 = Some st'"
      by (auto simp: bind_eq_Some_conv)
    from se_reachable.iterate[OF Cons.prems(1) False b] have "se_reachable aligner read k references dropoff_threshold max_tries max_secondary n_max details0 st1" .
    from Cons.IH[OF this l] show ?thesis .
  qed
qed

theorem se_loop_stops_iff_witness:
  "se_loop simple_aligner se_read 4 se_refs (1/2) 20 0 (se_seed 0 5)
     [se_seed 0 5, se_seed 2 5] (se_init no_details) = Some two_perfect \<and>
   se_loop simple_aligner se_read 4 se_refs (1/2) 20 0 (se_seed 0 5)
     [se_seed 1 4] two_perfect = Some two_perfect"
proof -
  have r0: "se_reachable simple_aligner se_read 4 se_refs (1/2) 20 0 (se_seed 0 5) no_details
              (se_init no_details)"
    by (rule se_reachable.start)
  have l: "se_loop simple_aligner se_read 4 se_refs (1/2) 20 0 (se_seed 0 5)
             [se_seed 0 5, se_seed 2 5] (se_init no_details) = Some two_perfect"
    by code_simp
  have r: "se_reachable simple_aligner se_read 4 se_refs (1/2) 20 0 (se_seed 0 5) no_details
             two_perfect"
    by (rule se_loop_reachable[OF r0 l])
  have a: "se_stop_amended (1/2) 20 0 (se_seed 0 5) two_perfect (se_seed 1 4)"
    by (simp add: se_stop_amended_def two_perfect_def)
  show ?thesis
    using l a se_loop_stops_iff[OF r, of "se_seed 1 4" "[]"] by simp
qed

text \<open>
  C2, as claimed: the loop stops when \<open>tries > 1\<close> and the current best alignment has
  \<open>global_ed = 0\<close>, regardless of \<open>max_secondary\<close>. With \<open>max_secondary = 1\<close> and two
  seeds that match the read exactly, the state before the third iteration has
  \<open>tries = 2\<close> and a best alignment with \<open>global_ed = 0\<close>, so the claimed condition
  holds, and the loop does not stop: three alignments are tried.
\<close>

theorem se_loop_goes_on_with_secondaries:
  "se_loop simple_aligner se_read 4 se_refs (1/2) 20 1 (se_seed 0 5)
     [se_seed 0 5, se_seed 2 5] (se_init no_details) = Some two_perfect_kept \<and>
   tries two_perfect_kept = 2 \<and> global_ed (best_alignment two_perfect_kept) = 0 \<and>
   se_stop_claimed (1/2) 20 (se_seed 0 5) two_perfect_kept (se_seed 1 4) \<and>
   se_stop (1/2) 20 (se_seed 0 5) two_perfect_kept (se_seed 1 4) = False \<and>
   map_option snd
     (align_SE simple_aligner [se_seed 0 5, se_seed 2 5, se_seed 1 4] se_read 4 se_refs
        no_details (1/2) 20 1) =
     Some \<lparr>nam_inconsistent = 0, tried_alignment = 3, details_gapped = 1\<rparr>"
  by code_simp

text \<open>
  When no score exceeds \<open>best_score\<close> and the window is not negative, the test of the
  emission loop never holds and every alignment handed to the loop is emitted.
\<close>

lemma emit_loop_emits_all:
  assumes "\<forall>a \<in> set as. al_score a \<le> best" and "0 \<le> 2 * mismatch p + gap_open p"
  shows "length (emit_loop p best min_diff i as) = length as"
  using assms by (induction as arbitrary: i) (auto simp: Let_def)

text \<open>
  C1. With \<open>max_secondary > 0\<close>, \<^verbatim>\<open>align_SE\<close> is claimed to emit only alignments whose
  score is within \<open>2 mismatch + gap_open\<close> of the best. The source breaks when
  \<open>alignment.score - best_score\<close> exceeds that window, a difference that is never
  positive. With \<open>mismatch = 8\<close> and \<open>gap_open = 12\<close> the window is 28; the call below
  emits the primary with score 40 and a secondary with score 10.
\<close>

theorem align_SE_emits_outside_window:
  "align_SE simple_aligner [se_seed 0 5, se_seed 1 4] se_read 4 se_refs no_details (1/2) 20 1 =
     Some ([Mapped exact_primary True, Mapped distant_secondary False],
           \<lparr>nam_inconsistent = 0, tried_alignment = 2, details_gapped = 1\<rparr>) \<and>
   al_score exact_primary = 40 \<and> al_score distant_secondary = 10 \<and>
   2 * mismatch (parameters simple_aligner) + gap_open (parameters simple_aligner) = 28"
  by code_simp

theorem align_SE_emits_outside_window_witness:
  "map_option (length \<circ> fst)
     (align_SE simple_aligner [se_seed 0 5, se_seed 1 4] se_read 4 se_refs no_details (1/2) 20 1) =
   Some 2"
  using align_SE_emits_outside_window by simp

text \<open>The MAPQ of the primary that \<^verbatim>\<open>align_SE\<close> emits.\<close>

lemma se_body_min_mapq_diff:
  assumes "se_body aligner read k references max_secondary st nam = Some st'"
    and "0 \<le> min_mapq_diff st"
  shows "0 \<le> min_mapq_diff st'"
proof -
  obtain c nam1 where rn: "reverse_nam_if_needed nam read references k = Some (c, nam1)"
    using assms(1)
    by (cases "reverse_nam_if_needed nam read references k") (auto simp: se_body_def)
  obtain alignment where ga: "get_alignment aligner nam1 references read c = Some alignment"
    using assms(1) rn
    by (cases "get_alignment aligner nam1 references read c") (auto simp: se_body_def Let_def)
  show ?thesis
    using assms by (auto simp: se_body_def Let_def rn ga)
qed

lemma se_reachable_min_mapq_diff:
  assumes "se_reachable aligner read k references dropoff_threshold max_tries max_secondary n_max details0 st"
  shows "0 \<le> min_mapq_diff st"
  using assms
proof (induction rule: se_reachable.induct)
  case start
  show ?case by (simp add: se_init_def INT_MAX_def)
next
  case (iterate st nam st')
  from se_body_min_mapq_diff[OF iterate.hyps(3) iterate.IH] show ?case .
qed

lemma emit_loop_primary:
  assumes "Mapped a True \<in> set (emit_loop p best min_diff i as)"
  shows "mapq a = min min_diff 60"
  using assms
proof (induction as arbitrary: i)
  case Nil
  then show ?case by simp
next
  case (Cons x xs)
  show ?case
  proof (cases "al_score x - best > 2 * mismatch p + gap_open p")
    case True
    with Cons.prems show ?thesis by simp
  next
    case False
    with Cons.prems have
      "Mapped a True = Mapped (x\<lparr>mapq := (if i = 0 then min min_diff 60 else 255)\<rparr>) (i = 0) \<or>
       Mapped a True \<in> set (emit_loop p best min_diff (Suc i) xs)"
      by (simp add: Let_def)
    then show ?thesis
    proof
      assume "Mapped a True = Mapped (x\<lparr>mapq := (if i = 0 then min min_diff 60 else 255)\<rparr>) (i = 0)"
      then have "i = 0" "a = x\<lparr>mapq := (if i = 0 then min min_diff 60 else 255)\<rparr>" by auto
      then show ?thesis by simp
    next
      assume "Mapped a True \<in> set (emit_loop p best min_diff (Suc i) xs)"
      then show ?thesis by (rule Cons.IH)
    qed
  qed
qed

lemma align_SE_primary_mapq:
  assumes "align_SE aligner nams read k references details0 dropoff_threshold max_tries max_secondary = Some (out, d)"
    and "Mapped a True \<in> set out"
  shows "0 \<le> mapq a \<and> mapq a \<le> 60"
proof (cases nams)
  case Nil
  with assms show ?thesis by (auto simp: align_SE_def)
next
  case (Cons n_max rest)
  from assms(1) obtain st where
    l: "se_loop aligner read k references dropoff_threshold max_tries max_secondary n_max nams (se_init details0) = Some st"
    and e: "(if max_secondary = 0 then
            Some ([Mapped ((best_alignment st)\<lparr>mapq := min (min_mapq_diff st) 60\<rparr>) True],
                  details st)
          else
            let sorted = sort_alignments (alignments st);
                max_out = min (length sorted) (max_secondary + 1)
            in Some (emit_loop (parameters aligner) (best_score st) (min_mapq_diff st) 0
                       (take max_out sorted),
                     details st)) = Some (out, d)"
    by (auto simp add: align_SE_def Cons Let_def bind_eq_Some_conv simp del: se_loop.simps)
  have "se_reachable aligner read k references dropoff_threshold max_tries max_secondary n_max details0 st"
    by (rule se_loop_reachable[OF se_reachable.start l])
  then have nn: "0 \<le> min_mapq_diff st" by (rule se_reachable_min_mapq_diff)
  have "mapq a = min (min_mapq_diff st) 60"
  proof (cases "max_secondary = 0")
    case True
    with e assms(2) show ?thesis by auto
  next
    case False
    with e have "out = emit_loop (parameters aligner) (best_score st) (min_mapq_diff st) 0
                       (take (min (length (sort_alignments (alignments st))) (max_secondary + 1)) (sort_alignments (alignments st)))"
      by (simp add: Let_def)
    with assms(2) show ?thesis using emit_loop_primary by blast
  qed
  with nn show ?thesis by simp
qed

subsection \<open>Proper-pair predicate\<close>

text \<open>With the same \<open>query_start\<close> in both seeds the predicate is symmetric.\<close>

lemma is_proper_nam_pair_same_query_start:
  assumes "query_start nam1 = query_start nam2"
  shows "is_proper_nam_pair nam1 nam2 \<mu> \<sigma> = is_proper_nam_pair nam2 nam1 \<mu> \<sigma>"
  using assms by (auto simp: is_proper_nam_pair_def Let_def)

text \<open>
  C5. The proper-pair predicate is claimed symmetric in its two seeds for all
  \<open>\<mu> \<ge> 0\<close> and \<open>\<sigma> \<ge> 0\<close>. The source subtracts \<open>query_start\<close> of the second seed
  from both reference starts, so the clamp at 0 acts on different values when the
  arguments are swapped: at \<open>\<mu> = 150\<close>, \<open>\<sigma> = 0\<close> the pair below is proper in one
  order and not in the other.
\<close>

theorem is_proper_nam_pair_asymmetric:
  "is_proper_nam_pair seed_fwd seed_rev 150 0 = True \<and>
   is_proper_nam_pair seed_rev seed_fwd 150 0 = False"
  by (simp add: is_proper_nam_pair_def seed_fwd_def seed_rev_def)

theorem is_proper_nam_pair_asymmetric_witness:
  "is_proper_nam_pair seed_fwd seed_rev 150 0 \<noteq> is_proper_nam_pair seed_rev seed_fwd 150 0"
  using is_proper_nam_pair_asymmetric by simp

subsection \<open>Seed-pair enumeration\<close>

lemma individual_n1_eq:
  "individual_n1 h added nams acc =
     acc @ map (\<lambda>n1. (n_hits n1, n1, dummy_nan))
             (filter (\<lambda>n1. nam_id n1 \<notin> added) (takeWhile (\<lambda>n1. n_hits n1 \<ge> cdiv h 2) nams))"
  by (induction nams arbitrary: acc) auto

lemma individual_n2_eq:
  "individual_n2 h added nams acc =
     acc @ map (\<lambda>n2. (n_hits n2, dummy_nan, n2))
             (filter (\<lambda>n2. nam_id n2 \<notin> added) (takeWhile (\<lambda>n2. n_hits n2 \<ge> cdiv h 2) nams))"
  by (induction nams arbitrary: acc) auto

lemma individual_n1_guarded:
  "(if nams1 \<noteq> [] then
      let hjss1 = (if H > 0 then H else n_hits (hd nams1))
      in individual_n1 hjss1 added nams1 acc
    else acc) =
   acc @ map (\<lambda>n1. (n_hits n1, n1, dummy_nan))
           (filter (\<lambda>n1. nam_id n1 \<notin> added)
              (takeWhile (\<lambda>n1. n_hits n1 \<ge> cdiv (if H > 0 then H else top_hits nams1) 2) nams1))"
  by (cases nams1) (simp_all only: individual_n1_eq top_hits_def Let_def list.case list.sel
       takeWhile.simps filter.simps list.map append_Nil2 if_True if_False not_Cons_self2 list.distinct not_False_eq_True not_True_eq_False simp_thms)

lemma individual_n2_guarded:
  "(if nams2 \<noteq> [] then
      let hjss2 = (if H > 0 then H else n_hits (hd nams2))
      in individual_n2 hjss2 added nams2 acc
    else acc) =
   acc @ map (\<lambda>n2. (n_hits n2, dummy_nan, n2))
           (filter (\<lambda>n2. nam_id n2 \<notin> added)
              (takeWhile (\<lambda>n2. n_hits n2 \<ge> cdiv (if H > 0 then H else top_hits nams2) 2) nams2))"
  by (cases nams2) (simp_all only: individual_n2_eq top_hits_def Let_def list.case list.sel
       takeWhile.simps filter.simps list.map append_Nil2 if_True if_False list.distinct not_False_eq_True not_True_eq_False simp_thms)

lemma sorted_sort_by_score_desc: "sorted_wrt (\<lambda>a b. fst b \<le> fst a) (sort_by_score_desc cs)"
proof -
  have "sorted (map (\<lambda>c. - fst c) (sort_by_score_desc cs))"
    unfolding sort_by_score_desc_def by (rule sorted_sort_key)
  then show ?thesis by (simp add: sorted_map sorted_wrt_iff_nth_less)
qed
lemma nam_locations_loops: "get_best_scoring_nam_locations nams1 nams2 \<mu> \<sigma> = nam_locations_amended nams1 nams2 \<mu> \<sigma>"
proof (cases "nams1 = [] \<and> nams2 = []")
  case True
  then show ?thesis by (simp add: get_best_scoring_nam_locations_def nam_locations_amended_def)
next
  case False
  define st where "st = joint_outer \<mu> \<sigma> nams1 nams2
                   \<lparr>joint_nam_scores = [], added_n1 = {}, added_n2 = {}, hjss = 0\<rparr>"
  have "get_best_scoring_nam_locations nams1 nams2 \<mu> \<sigma> =
     sort_by_score_desc
       (if nams2 \<noteq> [] then
          let hjss2 = (if hjss st > 0 then hjss st else n_hits (hd nams2))
          in individual_n2 hjss2 (added_n2 st) nams2
               (if nams1 \<noteq> [] then
                  let hjss1 = (if hjss st > 0 then hjss st else n_hits (hd nams1))
                  in individual_n1 hjss1 (added_n1 st) nams1 (joint_nam_scores st)
                else joint_nam_scores st)
        else (if nams1 \<noteq> [] then
                  let hjss1 = (if hjss st > 0 then hjss st else n_hits (hd nams1))
                  in individual_n1 hjss1 (added_n1 st) nams1 (joint_nam_scores st)
                else joint_nam_scores st))"
    using False unfolding get_best_scoring_nam_locations_def st_def[symmetric]
    by (simp only: Let_def if_False)
  also have "\<dots> = nam_locations_amended nams1 nams2 \<mu> \<sigma>"
    using False unfolding nam_locations_amended_def st_def[symmetric] individual_n1_guarded individual_n2_guarded
    by (simp only: Let_def if_False append_assoc)
  finally show ?thesis .
qed

text \<open>
  C4, as claimed: an individual candidate for exactly the unpaired \<open>n1\<close> with
  \<open>n_hits \<ge> max(H, nams1[0].n_hits) / 2\<close>. With seeds of 10, 2 and 8 hits and no mate
  seeds, \<open>H = 0\<close> and the threshold is 5: the claim lists the seeds with 10 and 8 hits,
  the loop stops at the seed with 2 hits and returns the first one only.
\<close>

theorem nam_locations_stop_at_first_low:
  "get_best_scoring_nam_locations [nam_a, nam_b, nam_c] [] 300 100 = [(10, nam_a, dummy_nan)] \<and>
   nam_locations_claimed [nam_a, nam_b, nam_c] [] 300 100 =
     [(10, nam_a, dummy_nan), (8, nam_c, dummy_nan)]"
  by (simp add: get_best_scoring_nam_locations_def nam_locations_claimed_def sort_by_score_desc_def
      nam_a_def nam_b_def nam_c_def cdiv_def top_hits_def Let_def)

text \<open>
  C4, amended. After the joint enumeration with highest joint hit count \<open>H\<close>, let the
  threshold be \<open>H\<close> if \<open>H > 0\<close> and \<open>nams1[0].n_hits\<close> otherwise. An individual
  candidate \<open>(n1.n_hits, n1, dummy)\<close> is appended for exactly those \<open>n1\<close> that are not
  paired and come before the first seed of \<open>nams1\<close> with fewer hits than half the
  threshold (integer division); symmetrically for \<open>n2\<close>; the combined list is then
  sorted by score descending.
\<close>

theorem nam_locations_amended_eq:
  "get_best_scoring_nam_locations nams1 nams2 \<mu> \<sigma> = nam_locations_amended nams1 nams2 \<mu> \<sigma> \<and>
   sorted_wrt (\<lambda>a b. fst b \<le> fst a) (get_best_scoring_nam_locations nams1 nams2 \<mu> \<sigma>)"
proof
  show "get_best_scoring_nam_locations nams1 nams2 \<mu> \<sigma> = nam_locations_amended nams1 nams2 \<mu> \<sigma>"
    by (rule nam_locations_loops)
  show "sorted_wrt (\<lambda>a b. fst b \<le> fst a) (get_best_scoring_nam_locations nams1 nams2 \<mu> \<sigma>)"
    unfolding get_best_scoring_nam_locations_def Let_def
    by (simp only: sorted_sort_by_score_desc sorted_wrt.simps if_split simp_thms)
qed

theorem nam_locations_amended_eq_witness:
  "get_best_scoring_nam_locations [nam_a, nam_b, nam_c] [nam_r] 300 100 = [(14, nam_a, nam_r)]"
proof -
  have "nam_locations_amended [nam_a, nam_b, nam_c] [nam_r] 300 100 = [(14, nam_a, nam_r)]"
    by (simp add: nam_locations_amended_def sort_by_score_desc_def is_proper_nam_pair_def
        nam_a_def nam_b_def nam_c_def nam_r_def cdiv_def top_hits_def Let_def)
  then show ?thesis
    using nam_locations_amended_eq[of "[nam_a, nam_b, nam_c]" "[nam_r]" 300 100] by simp
qed

lemma joint_inner_fresh:
  assumes "joint_nam_scores st = [] \<longrightarrow> added_n1 st = {} \<and> added_n2 st = {} \<and> hjss st = 0"
  shows "joint_nam_scores (joint_inner \<mu> \<sigma> n1 nams2 st) = [] \<longrightarrow>
         added_n1 (joint_inner \<mu> \<sigma> n1 nams2 st) = {} \<and>
         added_n2 (joint_inner \<mu> \<sigma> n1 nams2 st) = {} \<and>
         hjss (joint_inner \<mu> \<sigma> n1 nams2 st) = 0"
  using assms
proof (induction nams2 arbitrary: st)
  case Nil
  then show ?case by simp
next
  case (Cons n2 rest)
  show ?case
  proof (cases "n_hits n1 + n_hits n2 < cdiv (hjss st) 2")
    case True
    then have "joint_inner \<mu> \<sigma> n1 (n2 # rest) st = st" by simp
    then show ?thesis using Cons.prems by (simp only:)
  next
    case False
    show ?thesis
    proof (cases "is_proper_nam_pair n1 n2 \<mu> \<sigma>")
      case True
      define st' where "st' = st\<lparr>joint_nam_scores := joint_nam_scores st @ [(n_hits n1 + n_hits n2, n1, n2)],
                 added_n1 := insert (nam_id n1) (added_n1 st),
                 added_n2 := insert (nam_id n2) (added_n2 st),
                 hjss := (if n_hits n1 + n_hits n2 > hjss st then n_hits n1 + n_hits n2 else hjss st)\<rparr>"
      have step: "joint_inner \<mu> \<sigma> n1 (n2 # rest) st = joint_inner \<mu> \<sigma> n1 rest st'"
        using True False by (simp add: Let_def st'_def)
      have "joint_nam_scores st' \<noteq> []" by (simp add: st'_def)
      then have "joint_nam_scores st' = [] \<longrightarrow>
                 added_n1 st' = {} \<and> added_n2 st' = {} \<and> hjss st' = 0" by simp
      from Cons.IH[OF this] show ?thesis by (simp only: step)
    next
      case f: False
      have step: "joint_inner \<mu> \<sigma> n1 (n2 # rest) st = joint_inner \<mu> \<sigma> n1 rest st"
        using f False by simp
      show ?thesis using Cons.IH[OF Cons.prems] by (simp only: step)
    qed
  qed
qed

lemma joint_outer_fresh:
  assumes "joint_nam_scores st = [] \<longrightarrow> added_n1 st = {} \<and> added_n2 st = {} \<and> hjss st = 0"
  shows "joint_nam_scores (joint_outer \<mu> \<sigma> nams1 nams2 st) = [] \<longrightarrow>
         added_n1 (joint_outer \<mu> \<sigma> nams1 nams2 st) = {} \<and>
         added_n2 (joint_outer \<mu> \<sigma> nams1 nams2 st) = {} \<and>
         hjss (joint_outer \<mu> \<sigma> nams1 nams2 st) = 0"
  using assms
proof (induction nams1 arbitrary: st)
  case Nil
  then show ?case by simp
next
  case (Cons n1 rest)
  show ?case using Cons.IH[OF joint_inner_fresh[OF Cons.prems]] by simp
qed

lemma cdiv_2_le:
  assumes "0 \<le> x"
  shows "cdiv x 2 \<le> x"
proof -
  from assms have "x div 2 \<le> x" by presburger
  then show ?thesis using assms by (simp add: cdiv_def sgn_if)
qed

lemma sort_by_score_desc_Nil: "sort_by_score_desc cs = [] \<longleftrightarrow> cs = []"
proof -
  have "length (sort_by_score_desc cs) = length cs" by (simp add: sort_by_score_desc_def)
  then show ?thesis by (metis length_0_conv)
qed

text \<open>
  C10. Whenever at least one of the two seed lists is non-empty (and hit counts are
  counts, that is, not negative), \<^verbatim>\<open>get_best_scoring_nam_locations\<close> returns a
  non-empty vector, so that \<^verbatim>\<open>joint_nam_scores[0]\<close> in \<^verbatim>\<open>align_PE\<close> is in bounds.
\<close>

theorem nam_locations_nonempty:
  assumes "\<not> (nams1 = [] \<and> nams2 = [])"
    and "\<forall>n \<in> set nams1 \<union> set nams2. 0 \<le> n_hits n"
  shows "get_best_scoring_nam_locations nams1 nams2 \<mu> \<sigma> \<noteq> []"
proof -
  define st where "st = joint_outer \<mu> \<sigma> nams1 nams2
                   \<lparr>joint_nam_scores = [], added_n1 = {}, added_n2 = {}, hjss = 0\<rparr>"
  define H where "H = hjss st"
  define i1 where "i1 = map (\<lambda>n1. (n_hits n1, n1, dummy_nan))
                       (filter (\<lambda>n1. nam_id n1 \<notin> added_n1 st)
                          (takeWhile (\<lambda>n1. n_hits n1 \<ge> cdiv (if H > 0 then H else top_hits nams1) 2) nams1))"
  define i2 where "i2 = map (\<lambda>n2. (n_hits n2, dummy_nan, n2))
                       (filter (\<lambda>n2. nam_id n2 \<notin> added_n2 st)
                          (takeWhile (\<lambda>n2. n_hits n2 \<ge> cdiv (if H > 0 then H else top_hits nams2) 2) nams2))"
  have eq: "get_best_scoring_nam_locations nams1 nams2 \<mu> \<sigma> =
        sort_by_score_desc (joint_nam_scores st @ i1 @ i2)"
  proof -
    have ne: "\<not> (nams1 = [] \<and> nams2 = [])" using assms(1) .
    show ?thesis
      unfolding nam_locations_loops nam_locations_amended_def st_def[symmetric] Let_def H_def[symmetric] i1_def i2_def
      by (simp only: ne if_False)
  qed
  have fresh: "joint_nam_scores st = [] \<longrightarrow> added_n1 st = {} \<and> added_n2 st = {} \<and> hjss st = 0"
    unfolding st_def by (rule joint_outer_fresh) simp
  have "joint_nam_scores st @ i1 @ i2 \<noteq> []"
  proof (cases "joint_nam_scores st = []")
    case False
    then show ?thesis by simp
  next
    case True
    with fresh have e: "added_n1 st = {}" "added_n2 st = {}" "H = 0" by (simp_all add: H_def)
    show ?thesis
    proof (cases nams1)
      case (Cons a r)
      with assms(2) have "0 \<le> n_hits a" by simp
      then have "cdiv (n_hits a) 2 \<le> n_hits a" by (rule cdiv_2_le)
      then have "i1 \<noteq> []" using Cons e by (simp add: i1_def top_hits_def)
      then show ?thesis by simp
    next
      case Nil
      with assms(1) obtain a r where c: "nams2 = a # r" by (cases nams2) auto
      with assms(2) have "0 \<le> n_hits a" by simp
      then have "cdiv (n_hits a) 2 \<le> n_hits a" by (rule cdiv_2_le)
      then have "i2 \<noteq> []" using c e by (simp add: i2_def top_hits_def)
      then show ?thesis by simp
    qed
  qed
  then show ?thesis by (simp add: eq sort_by_score_desc_Nil)
qed

theorem nam_locations_nonempty_witness:
  "get_best_scoring_nam_locations [nam_a, nam_b, nam_c] [nam_r] 300 100 \<noteq> []"
proof -
  have h1: "\<not> ([nam_a, nam_b, nam_c] = [] \<and> [nam_r] = [])" by simp
  have h2: "\<forall>n \<in> set [nam_a, nam_b, nam_c] \<union> set [nam_r]. 0 \<le> n_hits n"
    by (simp add: nam_a_def nam_b_def nam_c_def nam_r_def)
  show ?thesis by (rule nam_locations_nonempty[OF h1 h2])
qed

subsection \<open>MAPQ\<close>

lemma joint_mapq_bounds:
  assumes "s2 \<le> s1"
  shows "0 \<le> fst (joint_mapq_from_alignment_scores s1 s2) \<and>
         fst (joint_mapq_from_alignment_scores s1 s2) \<le> 60 \<and>
         snd (joint_mapq_from_alignment_scores s1 s2) = fst (joint_mapq_from_alignment_scores s1 s2)"
  using assms
  by (auto simp: joint_mapq_from_alignment_scores_def Let_def trunc_int_def)

lemma get_mapq_bounds:
  assumes "sorted_wrt (\<lambda>a b. score b \<le> score a) nams" "nams \<noteq> []" "n_max = hd nams"
    "1 \<le> score n_max" "0 \<le> n_hits n_max"
  shows "0 \<le> get_mapq nams n_max \<and> get_mapq nams n_max \<le> 60"
proof (cases "length nams \<le> 1")
  case True
  then show ?thesis by (simp add: get_mapq_def)
next
  case False
  then obtain a b rest where n: "nams = a # b # rest"
    by (cases nams; cases "tl nams") auto
  with assms have s: "score b \<le> score n_max" "n_max = a" by auto
  define u where "u = 40 * (1 - score b / score n_max) *
                       min (real_of_int (n_hits n_max) / 10) 1 * ln (score n_max)"
  have "0 \<le> 1 - score b / score n_max" using s assms(4) by (simp add: divide_le_eq)
  moreover have "0 \<le> min (real_of_int (n_hits n_max) / 10) 1" using assms(5) by simp
  moreover have "0 \<le> ln (score n_max)" using assms(4) by simp
  ultimately have "0 \<le> u" by (simp add: u_def)
  then have "0 \<le> trunc_int u" by (rule trunc_int_nonneg)
  then have m: "0 \<le> min (trunc_int u) 60" "min (trunc_int u) 60 \<le> 60" by simp_all
  then have "min (trunc_int u) 60 mod 256 = min (trunc_int u) 60" by simp
  moreover have "get_mapq nams n_max = min (trunc_int u) 60 mod 256"
    using n s by (simp add: get_mapq_def u_def Let_def)
  ultimately show ?thesis using m by simp
qed

text \<open>
  C7, as claimed: for every seed list sorted by score descending with its top seed,
  \<^verbatim>\<open>get_mapq\<close> is in \<open>[0, 60]\<close>. For the sorted list with scores \<open>1/2\<close> and \<open>1/4\<close> the
  uncapped value is \<open>20 ln (1/2)\<close>, which truncates to \<open>-13\<close>; the cap at 60 leaves it,
  and the \<^verbatim>\<open>uint8_t\<close> return makes it 243.
\<close>

theorem get_mapq_low_score_is_243:
  "get_mapq [low_score_top, low_score_second] low_score_top = 243"
proof -
  define x where "x = 20 * ln (1/2 :: real)"
  have a: "ln (1/2 :: real) = - ln 2" by (simp add: ln_div)
  have x1: "x < -13" and x2: "-14 < x"
    using a ln2_lower ln2_upper by (simp_all add: x_def)
  have "\<lceil>x\<rceil> = -13" using x1 x2 by (simp add: ceiling_eq_iff)
  then have t: "trunc_int x = -13" using x1 by (simp add: trunc_int_def)
  have "get_mapq [low_score_top, low_score_second] low_score_top = (min (trunc_int x) 60) mod 256"
    by (simp add: get_mapq_def low_score_top_def low_score_second_def x_def Let_def)
  then show ?thesis by (simp add: t)
qed

text \<open>
  C7, amended. For every seed list sorted by score descending whose top seed has a
  score of at least 1 and a non-negative hit count, \<^verbatim>\<open>get_mapq\<close> of the list and its
  top seed is in \<open>[0, 60]\<close>; for scores \<open>s1 \<ge> s2\<close> (the order in which every caller
  passes them) both components of \<^verbatim>\<open>joint_mapq_from_alignment_scores\<close> are in
  \<open>[0, 60]\<close>; and the MAPQ of every primary that \<^verbatim>\<open>align_SE\<close> emits is in \<open>[0, 60]\<close>.
\<close>

theorem mapq_bounds:
  assumes "sorted_wrt (\<lambda>a b. score b \<le> score a) nams" and "nams \<noteq> []"
    and "n_max = hd nams" and "1 \<le> score n_max" and "0 \<le> n_hits n_max"
    and "s2 \<le> s1"
    and "align_SE aligner se_nams read k references details0 dropoff_threshold max_tries
           max_secondary = Some (out, d)"
    and "Mapped a True \<in> set out"
  shows "0 \<le> get_mapq nams n_max \<and> get_mapq nams n_max \<le> 60 \<and>
         0 \<le> fst (joint_mapq_from_alignment_scores s1 s2) \<and>
         fst (joint_mapq_from_alignment_scores s1 s2) \<le> 60 \<and>
         0 \<le> snd (joint_mapq_from_alignment_scores s1 s2) \<and>
         snd (joint_mapq_from_alignment_scores s1 s2) \<le> 60 \<and>
         0 \<le> mapq a \<and> mapq a \<le> 60"
  using get_mapq_bounds[OF assms(1-5)] joint_mapq_bounds[OF assms(6)]
    align_SE_primary_mapq[OF assms(7,8)]
  by simp

theorem mapq_bounds_witness:
  "get_mapq [good_top, good_second] good_top \<in> {0..60} \<and>
   fst (joint_mapq_from_alignment_scores 120 95) = 25 \<and>
   snd (joint_mapq_from_alignment_scores 120 95) = 25 \<and>
   align_SE simple_aligner [se_seed 0 5, se_seed 1 4] se_read 4 se_refs no_details (1/2) 20 1 =
     Some ([Mapped exact_primary True, Mapped distant_secondary False],
           \<lparr>nam_inconsistent = 0, tried_alignment = 2, details_gapped = 1\<rparr>) \<and>
   mapq exact_primary = 30"
proof -
  have h1: "sorted_wrt (\<lambda>a b. score b \<le> score a) [good_top, good_second]"
    by (simp add: good_top_def good_second_def)
  have h2: "[good_top, good_second] \<noteq> []" by simp
  have h3: "good_top = hd [good_top, good_second]" by simp
  have h4: "1 \<le> score good_top" by (simp add: good_top_def)
  have h5: "0 \<le> n_hits good_top" by (simp add: good_top_def)
  have h6: "(95::real) \<le> 120" by simp
  have h7: "align_SE simple_aligner [se_seed 0 5, se_seed 1 4] se_read 4 se_refs no_details
              (1/2) 20 1 =
            Some ([Mapped exact_primary True, Mapped distant_secondary False],
                  \<lparr>nam_inconsistent = 0, tried_alignment = 2, details_gapped = 1\<rparr>)"
    by code_simp
  have h8: "Mapped exact_primary True \<in> set [Mapped exact_primary True, Mapped distant_secondary False]"
    by simp
  have j: "joint_mapq_from_alignment_scores 120 95 = (25, 25)"
    by (simp add: joint_mapq_from_alignment_scores_def trunc_int_def)
  have m: "mapq exact_primary = 30" by (simp add: exact_primary_def)
  show ?thesis
    using mapq_bounds[OF h1 h2 h3 h4 h5 h6 h7 h8] h7 j m by simp
qed

subsection \<open>Insert-size estimator\<close>

text \<open>
  C8. For every observation \<open>d\<close>, \<^verbatim>\<open>update\<close> leaves the whole estimator state
  unchanged when \<open>d \<ge> 2000\<close>, and otherwise performs exactly one Welford step: with
  \<open>e = d - mu\<close>, \<open>mu\<close> grows by \<open>e\<close> over the old \<open>sample_size\<close>, \<open>SSE\<close> grows by
  \<open>e\<close> times \<open>d\<close> minus the new \<open>mu\<close>, \<open>V\<close> is \<open>SSE / (sample_size - 1)\<close> if the
  old \<open>sample_size\<close> exceeds 1 and \<open>SSE\<close> otherwise, \<open>sigma\<close> is the square root of
  \<open>V\<close>, and \<open>sample_size\<close> grows by 1.
\<close>

theorem update_is_welford_step:
  "update st d = (if d \<ge> 2000 then st else welford_step st d)"
  by (simp add: update_def welford_step_def Let_def)

end
